theory Spec2Isabelle
  imports Main "HOL-Library.Word"
begin

unbundle bit_operations_syntax

section \<open>Python exceptions raised by the C extension\<close>

text \<open>
  The extension reports a failure by setting the interpreter's pending exception and
  returning NULL (or 0, or -1). The pending exception is a field of the state; the
  constructors are the exception types the modelled functions set.
  \<open>NullTypeErrno\<close> stands for \<^verbatim>\<open>PyErr_SetFromErrno(0)\<close>, which the FreeBSD socket
  code calls with a null exception type, and \<open>NoExceptionSet\<close> for a failure return
  on a path that sets no exception. \<open>SystemError\<close> is what \<^verbatim>\<open>Py_BuildValue\<close> sets
  when an object argument of its format is \<^verbatim>\<open>NULL\<close> and no exception is pending.
  \<open>NoReturnValue e n\<close> is a path that sets the exception \<open>e\<close> and then reaches the
  closing brace of a function returning a pointer without a \<^verbatim>\<open>return\<close>: what the
  caller receives is not defined by C; \<open>n\<close> counts the calls of \<^verbatim>\<open>free\<close> on the same
  pointer on that path.

  The operating system is a parameter of every modelled function: each system or
  library call is a function from its arguments (and, inside a loop, the number of the
  iteration) to its answer, so that a claim about every run is a theorem about every
  such function. A failure of the interpreter's own allocations (\<^verbatim>\<open>PyList_New\<close>,
  \<^verbatim>\<open>Py_BuildValue\<close>, \<^verbatim>\<open>PyUnicode_FromWideChar\<close>, \<^verbatim>\<open>PyList_Append\<close>) is not
  modelled.
\<close>

datatype py_exc =
    OSError int
  | WindowsError "32 word"
  | RuntimeError string
  | MemoryError
  | NullTypeErrno int
  | NoExceptionSet
  | SystemError string
  | NoReturnValue py_exc nat

text \<open>errno values of \<^verbatim>\<open><errno.h>\<close> (the same on Linux, the BSDs, macOS and Solaris).\<close>

definition EPERM :: int where "EPERM = 1"
definition ESRCH :: int where "ESRCH = 3"
definition ENOMEM :: int where "ENOMEM = 12"

text \<open>\<^verbatim>\<open>_psutil_common.c\<close>: \<^verbatim>\<open>NoSuchProcess()\<close> sets \<^verbatim>\<open>OSError(ESRCH, ...)\<close>,
  \<^verbatim>\<open>AccessDenied()\<close> sets \<^verbatim>\<open>OSError(EACCES, ...)\<close>.\<close>

definition NoSuchProcess :: py_exc where
  "NoSuchProcess = OSError ESRCH"


section \<open>POSIX: the liveness probe and the guessing classifier\<close>

datatype platform = LINUX | FREEBSD | OPENBSD | NETBSD | OSX | SUNOS

text \<open>
  The C state the POSIX helpers read and write: \<^verbatim>\<open>errno\<close>, the pending Python
  exception, and (for the claims about probing) the pids \<^verbatim>\<open>kill\<close> was called with.
\<close>

record posix_state =
  errno :: int
  py_err :: "py_exc option"
  kill_log :: "32 word list"

text \<open>
  \<^verbatim>\<open>kill(pid, 0)\<close> as the kernel answers it: \<open>None\<close> is the return value 0,
  \<open>Some e\<close> is the return value -1 with \<^verbatim>\<open>errno\<close> set to \<open>e\<close>. The argument is
  a \<^verbatim>\<open>pid_t\<close> (32 bits); \<^verbatim>\<open>long pid\<close> is 64 bits and is converted at the call.
\<close>

type_synonym kill_fn = "32 word \<Rightarrow> int option"

definition do_kill :: "kill_fn \<Rightarrow> 32 word \<Rightarrow> posix_state \<Rightarrow> int \<times> posix_state" where
  "do_kill kill p s =
     (case kill p of
        None \<Rightarrow> (0, s\<lparr>kill_log := kill_log s @ [p]\<rparr>)
      | Some e \<Rightarrow> (-1, s\<lparr>errno := e, kill_log := kill_log s @ [p]\<rparr>))"

text \<open>\<^verbatim>\<open>psutil_pid_exists\<close> (\<^verbatim>\<open>_psutil_common.c\<close>): 1 exists, 0 does not exist,
  -1 error with the Python exception set.\<close>

definition psutil_pid_exists ::
  "platform \<Rightarrow> kill_fn \<Rightarrow> 64 word \<Rightarrow> posix_state \<Rightarrow> int \<times> posix_state" where
  "psutil_pid_exists plat kill pid s =
     (if sint pid < 0 then (0, s)
      else if pid = 0 then
        (if plat = LINUX \<or> plat = FREEBSD then (0, s) else (1, s))
      else
        (case do_kill kill (scast pid) s of
           (ret, s1) \<Rightarrow>
             if ret = 0 then (1, s1)
             else if errno s1 = ESRCH then (0, s1)
             else if errno s1 = EPERM then (1, s1)
             else (-1, s1\<lparr>py_err := Some (OSError (errno s1))\<rparr>)))"

text \<open>\<^verbatim>\<open>psutil_raise_for_pid\<close> (\<^verbatim>\<open>_psutil_common.c\<close>): always returns 0 with an
  exception set.\<close>

definition psutil_raise_for_pid ::
  "platform \<Rightarrow> kill_fn \<Rightarrow> 64 word \<Rightarrow> string \<Rightarrow> posix_state \<Rightarrow> int \<times> posix_state" where
  "psutil_raise_for_pid plat kill pid msg s =
     (if errno s \<noteq> 0 then (0, s\<lparr>py_err := Some (OSError (errno s))\<rparr>)
      else
        (case psutil_pid_exists plat kill pid s of
           (r, s1) \<Rightarrow>
             if r = 0 then (0, s1\<lparr>py_err := Some NoSuchProcess\<rparr>)
             else (0, s1\<lparr>py_err := Some (RuntimeError msg)\<rparr>)))"




section \<open>Windows: process handles and the liveness probe\<close>

text \<open>Values of \<^verbatim>\<open>winerror.h\<close> and \<^verbatim>\<open>winnt.h\<close>.\<close>

definition NO_ERROR :: "32 word" where "NO_ERROR = 0"
definition ERROR_ACCESS_DENIED :: "32 word" where "ERROR_ACCESS_DENIED = 5"
definition ERROR_NOT_ENOUGH_MEMORY :: "32 word" where "ERROR_NOT_ENOUGH_MEMORY = 8"
definition ERROR_INVALID_PARAMETER :: "32 word" where "ERROR_INVALID_PARAMETER = 87"
definition ERROR_INSUFFICIENT_BUFFER :: "32 word" where "ERROR_INSUFFICIENT_BUFFER = 122"
definition STILL_ACTIVE :: "32 word" where "STILL_ACTIVE = 259"
definition PROCESS_QUERY_INFORMATION :: "32 word" where "PROCESS_QUERY_INFORMATION = 0x0400"
definition PROCESS_VM_READ :: "32 word" where "PROCESS_VM_READ = 0x0010"

text \<open>A non-null \<^verbatim>\<open>HANDLE\<close>; \<open>None\<close> of \<open>handle option\<close> is \<^verbatim>\<open>NULL\<close>.\<close>

type_synonym handle = nat

datatype win_call =
    CallOpenProcess "32 word" "32 word"
  | CallGetExitCodeProcess handle
  | CallCloseHandle "handle option"

text \<open>
  The Win32 calls as the system answers them. \<open>OpenProcess access pid\<close> is \<open>Inl h\<close>
  (a handle) or \<open>Inr e\<close> (\<^verbatim>\<open>NULL\<close>, last error \<open>e\<close>). \<open>GetExitCodeProcess h\<close> is
  \<open>Inl code\<close> (nonzero return, the exit code written) or \<open>Inr e\<close> (zero return, nothing
  written, last error \<open>e\<close>). \<open>CloseHandle h\<close> is \<open>None\<close> on success or \<open>Some e\<close> when it
  fails and sets the last error.
\<close>

record win32 =
  OpenProcess :: "32 word \<Rightarrow> 32 word \<Rightarrow> handle + 32 word"
  GetExitCodeProcess :: "handle \<Rightarrow> 32 word + 32 word"
  CloseHandle :: "handle option \<Rightarrow> 32 word option"

record win_state =
  last_error :: "32 word"
  win_err :: "py_exc option"
  win_log :: "win_call list"

definition do_OpenProcess ::
  "win32 \<Rightarrow> 32 word \<Rightarrow> 32 word \<Rightarrow> win_state \<Rightarrow> handle option \<times> win_state" where
  "do_OpenProcess w access pid s =
     (case OpenProcess w access pid of
        Inl h \<Rightarrow> (Some h, s\<lparr>win_log := win_log s @ [CallOpenProcess access pid]\<rparr>)
      | Inr e \<Rightarrow>
          (None, s\<lparr>last_error := e, win_log := win_log s @ [CallOpenProcess access pid]\<rparr>))"

definition do_GetExitCodeProcess ::
  "win32 \<Rightarrow> handle \<Rightarrow> win_state \<Rightarrow> 32 word option \<times> win_state" where
  "do_GetExitCodeProcess w h s =
     (case GetExitCodeProcess w h of
        Inl code \<Rightarrow> (Some code, s\<lparr>win_log := win_log s @ [CallGetExitCodeProcess h]\<rparr>)
      | Inr e \<Rightarrow>
          (None, s\<lparr>last_error := e, win_log := win_log s @ [CallGetExitCodeProcess h]\<rparr>))"

definition do_CloseHandle :: "win32 \<Rightarrow> handle option \<Rightarrow> win_state \<Rightarrow> win_state" where
  "do_CloseHandle w h s =
     (case CloseHandle w h of
        None \<Rightarrow> s\<lparr>win_log := win_log s @ [CallCloseHandle h]\<rparr>
      | Some e \<Rightarrow> s\<lparr>last_error := e, win_log := win_log s @ [CallCloseHandle h]\<rparr>)"

text \<open>\<^verbatim>\<open>PyErr_SetFromWindowsErr(0)\<close>: the exception carries \<^verbatim>\<open>GetLastError()\<close>.\<close>

definition PyErr_SetFromWindowsErr0 :: "win_state \<Rightarrow> win_state" where
  "PyErr_SetFromWindowsErr0 s = s\<lparr>win_err := Some (WindowsError (last_error s))\<rparr>"


text \<open>
  \<^verbatim>\<open>psutil_pid_is_running\<close> (\<^verbatim>\<open>arch/windows/process_info.c\<close>). \<^verbatim>\<open>pid\<close> is a
  \<^verbatim>\<open>DWORD\<close>, so \<^verbatim>\<open>pid < 0\<close> is the unsigned comparison.
\<close>

definition psutil_pid_is_running :: "win32 \<Rightarrow> 32 word \<Rightarrow> win_state \<Rightarrow> int \<times> win_state" where
  "psutil_pid_is_running w pid s =
     (if pid = 0 then (1, s)
      else if pid < 0 then (0, s)
      else
        (case do_OpenProcess w (PROCESS_QUERY_INFORMATION OR PROCESS_VM_READ) pid s of
           (None, s1) \<Rightarrow>
             if last_error s1 = ERROR_INVALID_PARAMETER
             then (0, do_CloseHandle w None s1)
             else if last_error s1 = ERROR_ACCESS_DENIED
             then (1, do_CloseHandle w None s1)
             else (-1, PyErr_SetFromWindowsErr0 (do_CloseHandle w None s1))
         | (Some hProcess, s1) \<Rightarrow>
             (case do_GetExitCodeProcess w hProcess s1 of
                (Some exitCode, s2) \<Rightarrow>
                  (if exitCode = STILL_ACTIVE then 1 else 0, do_CloseHandle w (Some hProcess) s2)
              | (None, s2) \<Rightarrow>
                  if last_error s2 = ERROR_ACCESS_DENIED
                  then (1, do_CloseHandle w (Some hProcess) s2)
                  else (-1, do_CloseHandle w (Some hProcess) (PyErr_SetFromWindowsErr0 s2)))))"

text \<open>
  \<^verbatim>\<open>psutil_pid_exists\<close> of \<^verbatim>\<open>_psutil_windows.c\<close>, the function Python calls: the
  argument is parsed as a C \<^verbatim>\<open>long\<close> (32 bits on Windows) and passed to
  \<^verbatim>\<open>psutil_pid_is_running(DWORD)\<close>, which keeps its bits. \<open>Inl\<close> is the raised
  exception, \<open>Inr\<close> the Python bool.
\<close>

definition win_psutil_pid_exists ::
  "win32 \<Rightarrow> 32 word \<Rightarrow> win_state \<Rightarrow> (py_exc option + bool) \<times> win_state" where
  "win_psutil_pid_exists w pid s =
     (case psutil_pid_is_running w pid s of
        (status, s1) \<Rightarrow>
          if status = -1 then (Inl (win_err s1), s1)
          else (Inr (status \<noteq> 0), s1))"

section \<open>Windows: the extended TCP and UDP table helpers\<close>

text \<open>
  \<^verbatim>\<open>__GetExtendedTcpTable\<close> and \<^verbatim>\<open>__GetExtendedUdpTable\<close> (\<^verbatim>\<open>_psutil_windows.c\<close>).
  The system function is the parameter \<^verbatim>\<open>call\<close>. Its model takes the number of the
  invocation (0 is the size query), whether the buffer pointer is non-null, the value
  of \<^verbatim>\<open>*size\<close> on entry, the address family and the table class, and gives the return
  value and the value of \<^verbatim>\<open>*size\<close> on exit. \<open>malloc n len\<close> says whether the
  allocation of iteration \<open>n\<close> succeeds. \<^verbatim>\<open>*data\<close> is \<open>None\<close> for \<^verbatim>\<open>NULL\<close> and
  \<open>Some len\<close> for a buffer allocated with \<open>len\<close> bytes.

  The size query is the first call, with a null buffer and \<^verbatim>\<open>*size = 0\<close>. No table
  fits in no bytes (an empty one still has its \<^verbatim>\<open>dwNumEntries\<close>), so the system
  function answers it with \<^verbatim>\<open>ERROR_INSUFFICIENT_BUFFER\<close> or with a failure, never with
  \<^verbatim>\<open>NO_ERROR\<close>. The callers in \<^verbatim>\<open>psutil_net_connections\<close> rely on it: on
  \<^verbatim>\<open>NO_ERROR\<close> they read \<^verbatim>\<open>table->dwNumEntries\<close> with no test of the pointer. The
  model does not build this in; where a property needs it, it is a premise.
\<close>

text \<open>\<^verbatim>\<open>AF_INET\<close> is 2 on Windows, FreeBSD and NetBSD.\<close>

definition AF_INET :: "32 word" where "AF_INET = 2"
definition TCP_TABLE_OWNER_PID_ALL :: "32 word" where "TCP_TABLE_OWNER_PID_ALL = 5"
definition UDP_TABLE_OWNER_PID :: "32 word" where "UDP_TABLE_OWNER_PID = 1"

type_synonym table_call = "nat \<Rightarrow> bool \<Rightarrow> 32 word \<Rightarrow> 32 word \<times> 32 word"
type_synonym ext_table_call =
  "nat \<Rightarrow> bool \<Rightarrow> 32 word \<Rightarrow> 32 word \<Rightarrow> 32 word \<Rightarrow> 32 word \<times> 32 word"
type_synonym malloc_fn = "nat \<Rightarrow> 32 word \<Rightarrow> bool"

text \<open>
  The \<^verbatim>\<open>while (error == ERROR_INSUFFICIENT_BUFFER)\<close> loop, the same text in both
  helpers. It has no counter, so it is a partial function: \<open>None\<close> is "never
  returns". The \<^verbatim>\<open>continue\<close> after a failed \<^verbatim>\<open>malloc\<close> re-tests the condition
  with \<^verbatim>\<open>error = ERROR_NOT_ENOUGH_MEMORY\<close>. The result is the returned error code,
  \<^verbatim>\<open>*data\<close> and \<^verbatim>\<open>*size\<close>.
\<close>

partial_function (option) extended_table_loop ::
  "table_call \<Rightarrow> malloc_fn \<Rightarrow> nat \<Rightarrow> 32 word \<Rightarrow> 32 word \<Rightarrow> 32 word option
     \<Rightarrow> (32 word \<times> 32 word option \<times> 32 word) option" where
  "extended_table_loop call malloc n error dwSize data =
     (if error = ERROR_INSUFFICIENT_BUFFER then
        (if \<not> malloc n dwSize
         then extended_table_loop call malloc (Suc n) ERROR_NOT_ENOUGH_MEMORY dwSize None
         else
           (case call (Suc n) True dwSize of
              (e, sz) \<Rightarrow>
                if e \<noteq> NO_ERROR
                then extended_table_loop call malloc (Suc n) e sz None
                else extended_table_loop call malloc (Suc n) e sz (Some dwSize)))
      else Some (error, data, dwSize))"

definition GetExtendedTcpTable ::
  "ext_table_call \<Rightarrow> malloc_fn \<Rightarrow> 32 word
     \<Rightarrow> (32 word \<times> 32 word option \<times> 32 word) option" where
  "GetExtendedTcpTable call malloc address_family =
     (case call 0 False 0 address_family TCP_TABLE_OWNER_PID_ALL of
        (error, dwSize) \<Rightarrow>
          extended_table_loop
            (\<lambda>n buf len. call n buf len address_family TCP_TABLE_OWNER_PID_ALL)
            malloc 0 error dwSize None)"

definition GetExtendedUdpTable ::
  "ext_table_call \<Rightarrow> malloc_fn \<Rightarrow> 32 word
     \<Rightarrow> (32 word \<times> 32 word option \<times> 32 word) option" where
  "GetExtendedUdpTable call malloc address_family =
     (case call 0 False 0 address_family UDP_TABLE_OWNER_PID of
        (error, dwSize) \<Rightarrow>
          extended_table_loop
            (\<lambda>n buf len. call n buf len address_family UDP_TABLE_OWNER_PID)
            malloc 0 error dwSize None)"

section \<open>Windows: the system handle table\<close>

text \<open>
  The first loop of \<^verbatim>\<open>psutil_get_open_files_ntqueryobject\<close>
  (\<^verbatim>\<open>arch/windows/process_handles.c\<close>, lines 105 to 134): double \<^verbatim>\<open>dwInfoSize\<close> (a
  \<^verbatim>\<open>DWORD\<close>, so the doubling wraps), allocate, query, and repeat while the status is
  \<^verbatim>\<open>STATUS_INFO_LENGTH_MISMATCH\<close>. \<open>query n len\<close> is the status of the query of
  iteration \<open>n\<close>, \<open>alloc n len\<close> whether \<^verbatim>\<open>HeapAlloc\<close> succeeds there. The result is
  the exception, or the final status and buffer size.
\<close>

definition STATUS_INFO_LENGTH_MISMATCH :: "32 word" where
  "STATUS_INFO_LENGTH_MISMATCH = 0xc0000004"

definition NT_SUCCESS :: "32 word \<Rightarrow> bool" where
  "NT_SUCCESS x = (0 \<le> sint x)"

partial_function (option) handle_info_loop ::
  "(nat \<Rightarrow> 32 word \<Rightarrow> 32 word) \<Rightarrow> malloc_fn \<Rightarrow> nat \<Rightarrow> 32 word
     \<Rightarrow> (py_exc + 32 word \<times> 32 word) option" where
  "handle_info_loop query alloc n dwInfoSize =
     (if \<not> alloc n (dwInfoSize * 2) then Some (Inl MemoryError)
      else if query n (dwInfoSize * 2) = STATUS_INFO_LENGTH_MISMATCH
      then handle_info_loop query alloc (Suc n) (dwInfoSize * 2)
      else Some (Inr (query n (dwInfoSize * 2), dwInfoSize * 2)))"

text \<open>The loop from \<^verbatim>\<open>dwInfoSize = 0x10000\<close> and the \<^verbatim>\<open>NT_SUCCESS\<close> test after it;
  \<^verbatim>\<open>HRESULT_FROM_NT\<close> sets the \<^verbatim>\<open>FACILITY_NT_BIT\<close> (0x10000000).\<close>

definition fetch_handle_info ::
  "(nat \<Rightarrow> 32 word \<Rightarrow> 32 word) \<Rightarrow> malloc_fn \<Rightarrow> (py_exc + 32 word) option" where
  "fetch_handle_info query alloc =
     (case handle_info_loop query alloc 0 0x10000 of
        None \<Rightarrow> None
      | Some (Inl e) \<Rightarrow> Some (Inl e)
      | Some (Inr (status, len)) \<Rightarrow>
          if \<not> NT_SUCCESS status then Some (Inl (WindowsError (status OR 0x10000000)))
          else Some (Inr len))"

section \<open>Windows: the names of open files\<close>

text \<open>
  The second loop of \<^verbatim>\<open>psutil_get_open_files_ntqueryobject\<close> (lines 136 to 246 of
  \<^verbatim>\<open>arch/windows/process_handles.c\<close>) and \<^verbatim>\<open>psutil_NtQueryObject\<close> (lines 274 to
  306). The name of a handle is asked for by a worker thread,
  \<^verbatim>\<open>psutil_NtQueryObjectThread\<close>, which the main thread starts through the event
  \<^verbatim>\<open>g_hEvtStart\<close> and awaits on the event \<^verbatim>\<open>g_hEvtFinish\<close>; the two threads share the
  globals \<^verbatim>\<open>g_hFile\<close>, \<^verbatim>\<open>g_pNameBuffer\<close>, \<^verbatim>\<open>g_dwSize\<close>, \<^verbatim>\<open>g_dwLength\<close> and
  \<^verbatim>\<open>g_status\<close>.

  The model is the main thread, which is sequential. The worker is part of the system:
  it appears as the answer of \<^verbatim>\<open>WaitForSingleObject\<close> on the finish event, and as what
  it has stored into \<^verbatim>\<open>g_status\<close>, \<^verbatim>\<open>g_dwLength\<close> and the name buffer when that wait
  returns (\<open>None\<close>: nothing). Time is not modelled: the timeout is the argument of the
  wait, and a wait that was not answered in time is one that returns
  \<^verbatim>\<open>WAIT_TIMEOUT\<close>.
\<close>

definition WAIT_OBJECT_0 :: "32 word" where "WAIT_OBJECT_0 = 0"
definition WAIT_TIMEOUT :: "32 word" where "WAIT_TIMEOUT = 258"
definition INFINITE :: "32 word" where "INFINITE = 0xFFFFFFFF"
definition NTQO_TIMEOUT :: "32 word" where "NTQO_TIMEOUT = 100"

text \<open>A \<^verbatim>\<open>UNICODE_STRING\<close>: the length in bytes and the wide characters \<^verbatim>\<open>Buffer\<close>
  points to. A \<^verbatim>\<open>SYSTEM_HANDLE_TABLE_ENTRY_INFO_EX\<close>: the two fields the loop reads
  (\<^verbatim>\<open>HANDLE\<close> is 64 bits wide).\<close>

record unicode_string =
  Length :: "16 word"
  Buffer :: "nat \<Rightarrow> 16 word"

record handle_entry =
  UniqueProcessId :: "64 word"
  HandleValue :: "64 word"

record worker_stores =
  stored_status :: "32 word"
  stored_length :: "32 word"
  stored_name :: unicode_string

text \<open>
  The system. \<open>resolved\<close>: the two \<^verbatim>\<open>ntdll\<close> functions and the two events are non-null
  after \<^verbatim>\<open>psutil_get_open_files_init\<close>; \<open>init_error\<close> is \<^verbatim>\<open>GetLastError()\<close> when they
  are not. \<open>NtQuerySystemInformation\<close> and \<open>HeapAlloc_info\<close> are the query and the
  allocation of the first loop, as in \<open>fetch_handle_info\<close>; \<open>NumberOfHandles\<close> and
  \<open>Handles\<close> are the table it leaves. \<open>DuplicateHandle\<close> gives the duplicate or
  \<open>None\<close> when it fails. The other answers are numbered by the calls of
  \<^verbatim>\<open>psutil_NtQueryObject\<close> made so far: whether the \<^verbatim>\<open>HeapAlloc\<close> of the name buffer
  before that call succeeds, the thread \<^verbatim>\<open>CreateThread\<close> gives when there is none,
  \<^verbatim>\<open>GetLastError()\<close> when it gives none, the answer of the wait on the finish event,
  and the worker's stores.
\<close>

record nt_os =
  resolved :: bool
  init_error :: "32 word"
  NtQuerySystemInformation :: "nat \<Rightarrow> 32 word \<Rightarrow> 32 word"
  HeapAlloc_info :: malloc_fn
  NumberOfHandles :: "64 word"
  Handles :: "nat \<Rightarrow> handle_entry"
  DuplicateHandle :: "handle \<Rightarrow> 64 word \<Rightarrow> handle option"
  HeapAlloc_name :: "nat \<Rightarrow> 32 word \<Rightarrow> bool"
  CreateThread :: "nat \<Rightarrow> handle option"
  GetLastError :: "nat \<Rightarrow> 32 word"
  WaitForSingleObject_hEvtFinish :: "nat \<Rightarrow> 32 word"
  worker :: "nat \<Rightarrow> worker_stores option"

text \<open>The calls of the main thread that the model records (the heap calls are not
  recorded).\<close>

datatype nt_call =
    CallCreateThread
  | CallSetEvent_hEvtStart
  | CallWaitForSingleObject_hEvtFinish "32 word"
  | CallSuspendThread handle
  | CallTerminateThread handle "32 word"
  | CallWaitForSingleObject_hThread handle "32 word"
  | CallCloseHandle_hThread handle
  | CallDuplicateHandle handle "64 word"
  | CallCloseHandle_hFile handle

text \<open>The globals of the file, with the recorded calls and the number of calls of
  \<^verbatim>\<open>psutil_NtQueryObject\<close> made so far.\<close>

record nt_globals =
  g_status :: "32 word"
  g_hFile :: "handle option"
  g_hThread :: "handle option"
  g_pNameBuffer :: "unicode_string option"
  g_dwSize :: "32 word"
  g_dwLength :: "32 word"
  calls :: "nt_call list"
  queries :: nat

text \<open>
  \<^verbatim>\<open>psutil_NtQueryObject\<close>: create the worker when there is none, signal it, wait for
  it for \<^verbatim>\<open>NTQO_TIMEOUT\<close> milliseconds, and on \<^verbatim>\<open>WAIT_TIMEOUT\<close> suspend it, terminate
  it, wait for its end and close its handle. The value is \<^verbatim>\<open>dwWait\<close>, or
  \<^verbatim>\<open>GetLastError()\<close> when no thread could be created. The wait for the end of the
  terminated thread has no timeout (\<^verbatim>\<open>INFINITE\<close>); the model records it and takes it
  to return.
\<close>

definition psutil_NtQueryObject :: "nt_os \<Rightarrow> nt_globals \<Rightarrow> 32 word \<times> nt_globals" where
  "psutil_NtQueryObject os s =
     (let n = queries s;
          s1 = (if g_hThread s = None
                then s\<lparr>g_hThread := CreateThread os n, calls := calls s @ [CallCreateThread]\<rparr>
                else s)
      in
        case g_hThread s1 of
          None \<Rightarrow> (GetLastError os n, s1\<lparr>queries := Suc n\<rparr>)
        | Some th \<Rightarrow>
            let s2 = s1\<lparr>calls := calls s1 @ [CallSetEvent_hEvtStart,
                                               CallWaitForSingleObject_hEvtFinish NTQO_TIMEOUT],
                        queries := Suc n\<rparr>;
                s3 = (case worker os n of
                        None \<Rightarrow> s2
                      | Some a \<Rightarrow>
                          s2\<lparr>g_status := stored_status a, g_dwLength := stored_length a,
                             g_pNameBuffer :=
                               map_option (\<lambda>b. stored_name a) (g_pNameBuffer s2)\<rparr>);
                dwWait = WaitForSingleObject_hEvtFinish os n
            in
              if dwWait = WAIT_TIMEOUT
              then (dwWait,
                    s3\<lparr>calls := calls s3 @ [CallSuspendThread th, CallTerminateThread th 1,
                                            CallWaitForSingleObject_hThread th INFINITE,
                                            CallCloseHandle_hThread th],
                       g_hThread := None\<rparr>)
              else (dwWait, s3))"





text \<open>The statements at the label \<^verbatim>\<open>loop_cleanup\<close> (lines 233 to 245); the label
  \<^verbatim>\<open>cleanup\<close> repeats them (lines 248 to 257).\<close>

definition loop_cleanup :: "nt_globals \<Rightarrow> nt_globals" where
  "loop_cleanup s =
     s\<lparr>g_pNameBuffer := None, g_dwSize := 0, g_dwLength := 0, g_hFile := None,
       calls := calls s @ (case g_hFile s of None \<Rightarrow> [] | Some h \<Rightarrow> [CallCloseHandle_hFile h])\<rparr>"





section \<open>macOS: the process list\<close>

text \<open>
  \<^verbatim>\<open>psutil_get_proc_list\<close> (\<^verbatim>\<open>arch/osx/process_info.c\<close>). The kernel is three
  answers per attempt \<open>k\<close>: the size query (\<open>Inl errno\<close> or \<open>Inr size\<close>), whether
  \<^verbatim>\<open>malloc\<close> of a given size succeeds, and the fetch into a buffer of a given size
  (\<open>Inl errno\<close>, or \<open>Inr\<close> the size written and the buffer read as an array of
  \<^verbatim>\<open>kinfo_proc\<close>, of which the model keeps \<^verbatim>\<open>kp_proc.p_pid\<close>).
  \<^verbatim>\<open>sizeof(kinfo_proc)\<close> is a parameter.
\<close>

record osx_kernel =
  sysctl_size :: "nat \<Rightarrow> int + 64 word"
  malloc_ok :: "nat \<Rightarrow> 64 word \<Rightarrow> bool"
  sysctl_fetch :: "nat \<Rightarrow> 64 word \<Rightarrow> int + 64 word \<times> (nat \<Rightarrow> 32 word)"
  sizeof_kinfo_proc :: "64 word"

text \<open>What the call leaves: the return value, \<^verbatim>\<open>*procList\<close>, \<^verbatim>\<open>*procCount\<close>,
  \<^verbatim>\<open>errno\<close>, and the number of loop iterations it entered.\<close>

record proc_list_result =
  ret :: int
  procList :: "(nat \<Rightarrow> 32 word) option"
  procCount :: "64 word"
  errno_after :: int
  attempts :: nat

text \<open>The \<^verbatim>\<open>while (lim-- > 0)\<close> loop: \<open>lim\<close> counts down, \<open>k\<close> counts the
  iterations entered so far, \<open>en\<close> is \<^verbatim>\<open>errno\<close>. A \<^verbatim>\<open>malloc\<close> that fails sets
  \<^verbatim>\<open>errno\<close> to \<^verbatim>\<open>ENOMEM\<close>, also when the second, smaller \<^verbatim>\<open>malloc\<close> then
  succeeds.\<close>

fun get_proc_list_loop :: "osx_kernel \<Rightarrow> nat \<Rightarrow> nat \<Rightarrow> int \<Rightarrow> proc_list_result" where
  "get_proc_list_loop K 0 k en =
     \<lparr>ret = ENOMEM, procList = None, procCount = 0, errno_after = en, attempts = k\<rparr>"
| "get_proc_list_loop K (Suc lim) k en =
     (case sysctl_size K k of
        Inl e \<Rightarrow>
          \<lparr>ret = e, procList = None, procCount = 0, errno_after = e, attempts = Suc k\<rparr>
      | Inr len \<Rightarrow>
          let size2 = len + drop_bit 3 len;
              first_ok = (if size2 > len then malloc_ok K k size2 else malloc_ok K k len);
              ptr_ok = (if size2 > len \<and> \<not> first_ok then malloc_ok K k len else first_ok);
              bufsize = (if size2 > len \<and> first_ok then size2 else len)
          in
            if \<not> ptr_ok then
              \<lparr>ret = ENOMEM, procList = None, procCount = 0, errno_after = ENOMEM,
               attempts = Suc k\<rparr>
            else
              (case sysctl_fetch K k bufsize of
                 Inl err \<Rightarrow>
                   if err \<noteq> ENOMEM then
                     \<lparr>ret = err, procList = None, procCount = 0, errno_after = err,
                      attempts = Suc k\<rparr>
                   else get_proc_list_loop K lim (Suc k) err
               | Inr (written, buf) \<Rightarrow>
                   \<lparr>ret = 0, procList = Some buf,
                    procCount = written div sizeof_kinfo_proc K,
                    errno_after = (if size2 > len \<and> \<not> first_ok then ENOMEM else en),
                    attempts = Suc k\<rparr>))"

definition psutil_get_proc_list :: "osx_kernel \<Rightarrow> int \<Rightarrow> proc_list_result" where
  "psutil_get_proc_list K en = get_proc_list_loop K 8 0 en"

text \<open>\<^verbatim>\<open>psutil_pids\<close> (\<^verbatim>\<open>_psutil_osx.c\<close>): the exception, or the list of pids.\<close>

definition osx_psutil_pids :: "osx_kernel \<Rightarrow> int \<Rightarrow> py_exc + 32 word list" where
  "osx_psutil_pids K en =
     (let r = psutil_get_proc_list K en in
      if ret r \<noteq> 0 then
        (if errno_after r \<noteq> 0 then Inl (OSError (errno_after r))
         else Inl (RuntimeError ''failed to retrieve process list''))
      else
        (case procList r of
           None \<Rightarrow> Inr []
         | Some buf \<Rightarrow> Inr (map buf [0 ..< unat (procCount r)])))"

section \<open>NetBSD and OpenBSD: swap memory\<close>

text \<open>
  \<^verbatim>\<open>psutil_swap_mem\<close> of \<^verbatim>\<open>arch/bsd/netbsd.c\<close> and of \<^verbatim>\<open>arch/bsd/openbsd.c\<close>.
  \<^verbatim>\<open>struct swapent\<close> keeps the three \<^verbatim>\<open>int\<close> fields the code reads.
\<close>

record swapent =
  se_flags :: "32 word"
  se_nblks :: "32 word"
  se_inuse :: "32 word"

text \<open>
  The kernel's answers: the return value of \<^verbatim>\<open>swapctl(SWAP_NSWAP, 0, 0)\<close>; whether
  \<^verbatim>\<open>calloc\<close> succeeds; \<^verbatim>\<open>swapctl(SWAP_STATS, swdev, nswap)\<close> as \<open>Inl errno\<close> (it
  returned -1) or \<open>Inr\<close> the array it filled; the \<^verbatim>\<open>VM_UVMEXP2\<close> \<^verbatim>\<open>sysctl\<close> of NetBSD
  as \<open>Inl errno\<close> or \<open>Inr (pgswapin, pgswapout)\<close>; \<^verbatim>\<open>getpagesize()\<close>. The header
  constants \<^verbatim>\<open>DEV_BSIZE\<close> and \<^verbatim>\<open>SWF_ENABLE\<close> are parameters.
\<close>

record swap_kernel =
  swapctl_NSWAP :: "32 word"
  calloc_swdev :: bool
  swapctl_STATS :: "int + (nat \<Rightarrow> swapent)"
  sysctl_uvmexp2 :: "int + 64 word \<times> 64 word"
  getpagesize :: "64 word"
  DEV_BSIZE :: "32 word"
  SWF_ENABLE :: "32 word"

text \<open>The devices the \<^verbatim>\<open>for (i = 0; i < nswap; i++)\<close> loops visit (\<^verbatim>\<open>nswap\<close> is a
  signed \<^verbatim>\<open>int\<close>).\<close>

definition swap_devices :: "(nat \<Rightarrow> swapent) \<Rightarrow> 32 word \<Rightarrow> swapent list" where
  "swap_devices swdev nswap = map swdev [0 ..< nat (sint nswap)]"

text \<open>The NetBSD totals: the products are \<^verbatim>\<open>int\<close> products (32 bits), widened to
  \<^verbatim>\<open>uint64_t\<close> when added. The pair is \<^verbatim>\<open>(swap_total, swap_free)\<close>.\<close>

primrec netbsd_swap_totals ::
  "swap_kernel \<Rightarrow> swapent list \<Rightarrow> 64 word \<times> 64 word \<Rightarrow> 64 word \<times> 64 word" where
  "netbsd_swap_totals K [] acc = acc"
| "netbsd_swap_totals K (d # ds) acc =
     netbsd_swap_totals K ds
       (if se_flags d AND SWF_ENABLE K \<noteq> 0
        then (fst acc + scast (se_nblks d * DEV_BSIZE K),
              snd acc + scast ((se_nblks d - se_inuse d) * DEV_BSIZE K))
        else acc)"

text \<open>The value is the raised exception or the Python tuple. A failed \<^verbatim>\<open>calloc\<close>
  leaves \<^verbatim>\<open>ENOMEM\<close> in \<^verbatim>\<open>errno\<close>. Both \<^verbatim>\<open>goto error\<close> of the NetBSD function reach
  a label that calls \<^verbatim>\<open>free(swdev)\<close> and is followed by the closing brace of the
  function, with no \<^verbatim>\<open>return\<close>; on the second one (the \<^verbatim>\<open>VM_UVMEXP2\<close> failure)
  \<^verbatim>\<open>swdev\<close> has been freed before, after the totals were computed.\<close>

definition netbsd_psutil_swap_mem ::
  "swap_kernel \<Rightarrow> int \<Rightarrow> py_exc + int \<times> int \<times> int \<times> int \<times> int" where
  "netbsd_psutil_swap_mem K en =
     (if swapctl_NSWAP K = 0 then Inr (0, 0, 0, 0, 0)
      else if \<not> calloc_swdev K then Inl (OSError ENOMEM)
      else
        (case swapctl_STATS K of
           Inl e \<Rightarrow> Inl (NoReturnValue (OSError e) 1)
         | Inr swdev \<Rightarrow>
             (case sysctl_uvmexp2 K of
                Inl e \<Rightarrow> Inl (NoReturnValue (OSError e) 2)
              | Inr (pgswapin, pgswapout) \<Rightarrow>
                  (case netbsd_swap_totals K (swap_devices swdev (swapctl_NSWAP K)) (0, 0) of
                     (swap_total, swap_free) \<Rightarrow>
                       Inr (sint swap_total, sint (swap_total - swap_free), sint swap_free,
                            sint (pgswapin * getpagesize K),
                            sint (pgswapout * getpagesize K))))))"

text \<open>The OpenBSD totals count blocks; the pair is \<^verbatim>\<open>(swap_total, swap_free)\<close>.\<close>

primrec openbsd_swap_totals ::
  "swap_kernel \<Rightarrow> swapent list \<Rightarrow> 64 word \<times> 64 word \<Rightarrow> 64 word \<times> 64 word" where
  "openbsd_swap_totals K [] acc = acc"
| "openbsd_swap_totals K (d # ds) acc =
     openbsd_swap_totals K ds
       (if se_flags d AND SWF_ENABLE K \<noteq> 0
        then (fst acc + scast (se_nblks d), snd acc + scast (se_nblks d - se_inuse d))
        else acc)"

definition openbsd_psutil_swap_mem ::
  "swap_kernel \<Rightarrow> int \<Rightarrow> py_exc + int \<times> int \<times> int \<times> int \<times> int" where
  "openbsd_psutil_swap_mem K en =
     (if swapctl_NSWAP K = 0 then Inl (OSError en)
      else if \<not> calloc_swdev K then Inl MemoryError
      else
        (case swapctl_STATS K of
           Inl e \<Rightarrow> Inl (OSError e)
         | Inr swdev \<Rightarrow>
             (case openbsd_swap_totals K (swap_devices swdev (swapctl_NSWAP K)) (0, 0) of
                (swap_total, swap_free) \<Rightarrow>
                  Inr (sint (swap_total * scast (DEV_BSIZE K)),
                       sint ((swap_total - swap_free) * scast (DEV_BSIZE K)),
                       sint (swap_free * scast (DEV_BSIZE K)), 0, 0))))"

section \<open>FreeBSD: system-wide connections\<close>

text \<open>
  \<^verbatim>\<open>arch/bsd/freebsd_socks.c\<close>. The file keeps the open-file table in the globals
  \<^verbatim>\<open>psutil_xfiles\<close> and \<^verbatim>\<open>psutil_nxfiles\<close>; the model passes them as arguments. A
  buffer is modelled by what the code reads through its struct pointers: the
  open-file buffer as an array of \<^verbatim>\<open>struct xfile\<close> (index to element), a pcblist buffer
  as a function from the byte offset of a struct to its fields. A kernel pointer is a
  64-bit word, 0 for \<^verbatim>\<open>NULL\<close>.
\<close>

definition HASHSIZE :: "64 word" where "HASHSIZE = 1009"
definition PSUTIL_CONN_NONE :: "32 word" where "PSUTIL_CONN_NONE = 128"

text \<open>Values of the FreeBSD headers (\<^verbatim>\<open>sys/socket.h\<close>, \<^verbatim>\<open>netinet/in.h\<close>,
  \<^verbatim>\<open>netinet/in_pcb.h\<close>).\<close>

definition IPPROTO_TCP :: "32 word" where "IPPROTO_TCP = 6"
definition IPPROTO_UDP :: "32 word" where "IPPROTO_UDP = 17"
definition SOCK_STREAM :: "32 word" where "SOCK_STREAM = 1"
definition SOCK_DGRAM :: "32 word" where "SOCK_DGRAM = 2"
definition AF_UNIX :: "32 word" where "AF_UNIX = 1"
definition AF_INET6_FREEBSD :: "32 word" where "AF_INET6_FREEBSD = 28"
definition INP_IPV4 :: "8 word" where "INP_IPV4 = 0x1"
definition INP_IPV6 :: "8 word" where "INP_IPV6 = 0x2"

record xfile =
  xf_size :: "64 word"
  xf_pid :: "32 word"
  xf_data :: "64 word"

text \<open>The fields read from a \<^verbatim>\<open>struct xinpgen\<close>, \<^verbatim>\<open>struct xtcpcb\<close> or
  \<^verbatim>\<open>struct xinpcb\<close> at one offset: the length every one of them starts with
  (\<^verbatim>\<open>xig_len\<close>, \<^verbatim>\<open>xt_len\<close>, \<^verbatim>\<open>xi_len\<close>), the generation count, and for a control block
  its socket, addresses and TCP state.\<close>

record xinp =
  x_len :: "64 word"
  xig_gen :: "64 word"
  xso_so :: "64 word"
  inp_vflag :: "8 word"
  inp_lport :: "16 word"
  inp_fport :: "16 word"
  inp_laddr :: "32 word"
  inp_faddr :: "32 word"
  in6p_laddr :: "128 word"
  in6p_faddr :: "128 word"
  t_state :: "32 word"

text \<open>The same for \<^verbatim>\<open>struct xunpgen\<close> and \<^verbatim>\<open>struct xunpcb\<close>; \<^verbatim>\<open>xu_addr\<close> is kept as
  \<^verbatim>\<open>sun_len\<close> and the bytes of \<^verbatim>\<open>sun_path\<close>.\<close>

record xunp =
  xu_len :: "64 word"
  xug_gen :: "64 word"
  xu_so :: "64 word"
  sun_len :: "8 word"
  sun_path :: string

text \<open>
  The kernel and the allocator. A \<^verbatim>\<open>sysctlbyname\<close> answer is \<open>Inl errno\<close> (it returned
  -1) or \<open>Inr\<close> the length written and the buffer. The first argument of each is the
  number of the call within its loop; \<open>pcblist\<close> also takes the variable name
  (\<open>None\<close> for a null pointer). The \<^verbatim>\<open>sizeof\<close> of the kernel structs are parameters.
\<close>

record freebsd_kernel =
  malloc_xfiles :: bool
  kern_file :: "nat \<Rightarrow> 64 word \<Rightarrow> int + 64 word \<times> (nat \<Rightarrow> xfile)"
  realloc_xfiles :: "nat \<Rightarrow> 64 word \<Rightarrow> bool"
  pcblist :: "string option \<Rightarrow> nat \<Rightarrow> 64 word \<Rightarrow> int + 64 word \<times> (nat \<Rightarrow> xinp)"
  unpcblist :: "string option \<Rightarrow> nat \<Rightarrow> 64 word \<Rightarrow> int + 64 word \<times> (nat \<Rightarrow> xunp)"
  realloc_pcb :: "string option \<Rightarrow> nat \<Rightarrow> 64 word \<Rightarrow> bool"
  sizeof_xfile :: "64 word"
  sizeof_xinpgen :: "64 word"
  sizeof_xtcpcb :: "64 word"
  sizeof_xinpcb :: "64 word"
  sizeof_xunpgen :: "64 word"
  sizeof_xunpcb :: "64 word"

text \<open>The C library functions the decoding calls.\<close>

record libc =
  ntohs :: "16 word \<Rightarrow> 16 word"
  inet_ntop4 :: "32 word \<Rightarrow> string"
  inet_ntop6 :: "128 word \<Rightarrow> string"

text \<open>The Python values of a connection tuple. An address is \<^verbatim>\<open>(ip, port)\<close>, the
  empty tuple, a path, or \<^verbatim>\<open>None\<close>. \<open>None\<close> for \<open>family\<close> or an \<open>ip\<close> is a C
  variable read before any assignment (neither \<^verbatim>\<open>INP_IPV4\<close> nor \<^verbatim>\<open>INP_IPV6\<close> set).\<close>

datatype py_addr =
    AddrPort "string option" int
  | AddrEmpty
  | AddrPath string
  | AddrNone

record conn =
  fd :: int
  family :: "32 word option"
  sock_type :: "32 word"
  laddr :: py_addr
  raddr :: py_addr
  status :: "32 word"
  owner_pid :: "32 word"

text \<open>The loop of \<^verbatim>\<open>psutil_populate_xfiles\<close>: fetch \<^verbatim>\<open>kern.file\<close>, doubling the
  buffer while the kernel answers \<^verbatim>\<open>ENOMEM\<close>. It has no counter.\<close>

partial_function (option) populate_loop ::
  "freebsd_kernel \<Rightarrow> nat \<Rightarrow> 64 word \<Rightarrow> (py_exc + 64 word \<times> (nat \<Rightarrow> xfile)) option" where
  "populate_loop K k len =
     (case kern_file K k len of
        Inr r \<Rightarrow> Some (Inr r)
      | Inl e \<Rightarrow>
          if e \<noteq> ENOMEM then Some (Inl (NullTypeErrno e))
          else if \<not> realloc_xfiles K k (len * 2) then Some (Inl MemoryError)
          else populate_loop K (Suc k) (len * 2))"

text \<open>\<^verbatim>\<open>psutil_populate_xfiles\<close>: the exception (return value 0), or \<^verbatim>\<open>psutil_xfiles\<close>
  and \<^verbatim>\<open>psutil_nxfiles\<close> (return value 1). \<^verbatim>\<open>psutil_nxfiles\<close> is an \<^verbatim>\<open>int\<close>.

  The kernel writes \<^verbatim>\<open>kern.file\<close> as whole \<^verbatim>\<open>struct xfile\<close>, each stamped with its
  size in \<^verbatim>\<open>xf_size\<close>, so the length it reports is a multiple of the \<^verbatim>\<open>xf_size\<close> of
  the first entry. The model does not build this in; where a property needs it, it is a
  premise.\<close>

definition psutil_populate_xfiles ::
  "freebsd_kernel \<Rightarrow> (py_exc + (nat \<Rightarrow> xfile) \<times> 32 word) option" where
  "psutil_populate_xfiles K =
     (if \<not> malloc_xfiles K then Some (Inl MemoryError)
      else
        (case populate_loop K 0 (sizeof_xfile K) of
           None \<Rightarrow> None
         | Some (Inl e) \<Rightarrow> Some (Inl e)
         | Some (Inr (len, psutil_xfiles)) \<Rightarrow>
             if len > 0 \<and> xf_size (psutil_xfiles 0) \<noteq> sizeof_xfile K
             then Some (Inl (RuntimeError ''struct xfile size mismatch''))
             else Some (Inr (psutil_xfiles, ucast (len div sizeof_xfile K)))))"

text \<open>\<^verbatim>\<open>(int)((uintptr_t)p % HASHSIZE)\<close>.\<close>

definition sock_hash_of :: "64 word \<Rightarrow> 32 word" where
  "sock_hash_of p = ucast (p mod HASHSIZE)"

text \<open>The entries \<^verbatim>\<open>psutil_get_pid_from_sock\<close> visits, in order.\<close>

definition xfiles_table :: "(nat \<Rightarrow> xfile) \<Rightarrow> 32 word \<Rightarrow> xfile list" where
  "xfiles_table psutil_xfiles psutil_nxfiles =
     map psutil_xfiles [0 ..< nat (sint psutil_nxfiles)]"

primrec pid_from_sock_scan :: "xfile list \<Rightarrow> 32 word \<Rightarrow> 32 word" where
  "pid_from_sock_scan [] sock_hash = -1"
| "pid_from_sock_scan (xf # rest) sock_hash =
     (if xf_data xf = 0 then pid_from_sock_scan rest sock_hash
      else if sock_hash = sock_hash_of (xf_data xf) then xf_pid xf
      else pid_from_sock_scan rest sock_hash)"

definition psutil_get_pid_from_sock :: "(nat \<Rightarrow> xfile) \<Rightarrow> 32 word \<Rightarrow> 32 word \<Rightarrow> 32 word" where
  "psutil_get_pid_from_sock psutil_xfiles psutil_nxfiles sock_hash =
     pid_from_sock_scan (xfiles_table psutil_xfiles psutil_nxfiles) sock_hash"

text \<open>
  The fetch of \<^verbatim>\<open>psutil_gather_inet\<close> (lines 235 to 258): \<open>k\<close> counts the iterations
  of the inner loop, \<open>retry\<close> is the C variable. A failed \<^verbatim>\<open>realloc\<close> is retried with
  the same size (\<^verbatim>\<open>continue\<close>). The trailing \<^verbatim>\<open>xinpgen\<close> is at offset
  \<^verbatim>\<open>len - sizeof *exig\<close>. The result is the exception, or \<^verbatim>\<open>len\<close> and the buffer.
\<close>

partial_function (option) inet_fetch ::
  "freebsd_kernel \<Rightarrow> string option \<Rightarrow> nat \<Rightarrow> 64 word \<Rightarrow> nat
     \<Rightarrow> (py_exc + 64 word \<times> (nat \<Rightarrow> xinp)) option" where
  "inet_fetch K varname k bufsize retry =
     (if \<not> realloc_pcb K varname k bufsize then inet_fetch K varname (Suc k) bufsize retry
      else
        (case pcblist K varname k bufsize of
           Inl e \<Rightarrow>
             if e \<noteq> ENOMEM then Some (Inl (NullTypeErrno e))
             else inet_fetch K varname (Suc k) (bufsize * 2) retry
         | Inr (len, buf) \<Rightarrow>
             if x_len (buf 0) \<noteq> sizeof_xinpgen K
                \<or> x_len (buf (unat (len - sizeof_xinpgen K))) \<noteq> sizeof_xinpgen K
             then Some (Inl (RuntimeError ''struct xinpgen size mismatch''))
             else if xig_gen (buf 0) \<noteq> xig_gen (buf (unat (len - sizeof_xinpgen K)))
                     \<and> retry \<noteq> 0
             then inet_fetch K varname (Suc k) bufsize (retry - 1)
             else Some (Inr (len, buf))))"

text \<open>
  The second half of one step of the walk of \<^verbatim>\<open>psutil_gather_inet\<close> (lines 295 to
  330): look the socket's owner up, skip the block when there is none (\<open>None\<close>, the
  \<^verbatim>\<open>continue\<close>), otherwise build the tuple.
\<close>

definition inet_tuple ::
  "libc \<Rightarrow> 32 word \<Rightarrow> (nat \<Rightarrow> xfile) \<Rightarrow> 32 word \<Rightarrow> xinp \<Rightarrow> 32 word \<Rightarrow> conn option" where
  "inet_tuple C type psutil_xfiles psutil_nxfiles x st =
     (let hash = sock_hash_of (xso_so x);
          pid = psutil_get_pid_from_sock psutil_xfiles psutil_nxfiles hash
      in
        if sint pid < 0 then None
        else
          let lport = uint (ntohs C (inp_lport x));
              rport = uint (ntohs C (inp_fport x));
              v4 = (inp_vflag x AND INP_IPV4 \<noteq> 0);
              v6 = (inp_vflag x AND INP_IPV6 \<noteq> 0);
              fam = (if v4 then Some AF_INET else if v6 then Some AF_INET6_FREEBSD else None);
              lip = (if v4 then Some (inet_ntop4 C (inp_laddr x))
                     else if v6 then Some (inet_ntop6 C (in6p_laddr x)) else None);
              rip = (if v4 then Some (inet_ntop4 C (inp_faddr x))
                     else if v6 then Some (inet_ntop6 C (in6p_faddr x)) else None)
          in
            Some \<lparr>fd = -1, family = fam, sock_type = type,
                  laddr = AddrPort lip lport,
                  raddr = (if rport \<noteq> 0 then AddrPort rip rport else AddrEmpty),
                  status = st, owner_pid = pid\<rparr>)"

text \<open>
  One step of the walk on the struct at the new \<open>xig\<close> (lines 267 to 330): the
  \<^verbatim>\<open>switch (proto)\<close> with its size checks, then the tuple. The value is the exception,
  \<open>Inr None\<close> when the block is skipped, or the tuple added to the list.
\<close>

definition inet_entry ::
  "freebsd_kernel \<Rightarrow> libc \<Rightarrow> 32 word \<Rightarrow> 32 word \<Rightarrow> (nat \<Rightarrow> xfile) \<Rightarrow> 32 word \<Rightarrow> xinp
     \<Rightarrow> py_exc + conn option" where
  "inet_entry K C proto type psutil_xfiles psutil_nxfiles x =
     (if proto = IPPROTO_TCP then
        (if x_len x \<noteq> sizeof_xtcpcb K
         then Inl (RuntimeError ''struct xtcpcb size mismatch'')
         else Inr (inet_tuple C type psutil_xfiles psutil_nxfiles x (t_state x)))
      else if proto = IPPROTO_UDP then
        (if x_len x \<noteq> sizeof_xinpcb K
         then Inl (RuntimeError ''struct xinpcb size mismatch'')
         else Inr (inet_tuple C type psutil_xfiles psutil_nxfiles x PSUTIL_CONN_NONE))
      else Inl (RuntimeError ''invalid proto''))"

text \<open>
  The walk (lines 260 to 332): \<open>xig\<close> and \<open>exig\<close> are byte offsets into the buffer;
  each step advances \<open>xig\<close> by the length the struct at \<open>xig\<close> declares and stops when
  it reaches \<open>exig\<close>.
\<close>

partial_function (option) inet_walk ::
  "freebsd_kernel \<Rightarrow> libc \<Rightarrow> 32 word \<Rightarrow> 32 word \<Rightarrow> (nat \<Rightarrow> xfile) \<Rightarrow> 32 word
     \<Rightarrow> (nat \<Rightarrow> xinp) \<Rightarrow> 64 word \<Rightarrow> 64 word \<Rightarrow> conn list \<Rightarrow> (py_exc + conn list) option" where
  "inet_walk K C proto type psutil_xfiles psutil_nxfiles buf exig xig py_retlist =
     (if exig \<le> xig + x_len (buf (unat xig)) then Some (Inr py_retlist)
      else
        (case inet_entry K C proto type psutil_xfiles psutil_nxfiles
                (buf (unat (xig + x_len (buf (unat xig))))) of
           Inl e \<Rightarrow> Some (Inl e)
         | Inr None \<Rightarrow>
             inet_walk K C proto type psutil_xfiles psutil_nxfiles buf exig
               (xig + x_len (buf (unat xig))) py_retlist
         | Inr (Some c) \<Rightarrow>
             inet_walk K C proto type psutil_xfiles psutil_nxfiles buf exig
               (xig + x_len (buf (unat xig))) (py_retlist @ [c])))"

text \<open>\<^verbatim>\<open>psutil_gather_inet\<close>: the exception (return value 0) or the list with the
  protocol's tuples appended (return value 1).\<close>

definition psutil_gather_inet ::
  "freebsd_kernel \<Rightarrow> libc \<Rightarrow> 32 word \<Rightarrow> (nat \<Rightarrow> xfile) \<Rightarrow> 32 word \<Rightarrow> conn list
     \<Rightarrow> (py_exc + conn list) option" where
  "psutil_gather_inet K C proto psutil_xfiles psutil_nxfiles py_retlist =
     (let varname = (if proto = IPPROTO_TCP then Some ''net.inet.tcp.pcblist''
                     else if proto = IPPROTO_UDP then Some ''net.inet.udp.pcblist''
                     else None);
          type = (if proto = IPPROTO_TCP then SOCK_STREAM else SOCK_DGRAM)
      in
        case inet_fetch K varname 0 8192 5 of
          None \<Rightarrow> None
        | Some (Inl e) \<Rightarrow> Some (Inl e)
        | Some (Inr (len, buf)) \<Rightarrow>
            inet_walk K C proto type psutil_xfiles psutil_nxfiles buf
              (len - sizeof_xinpgen K) 0 py_retlist)"

text \<open>
  \<^verbatim>\<open>psutil_gather_unix\<close>. Its fetch differs from the one above in what a failed
  \<^verbatim>\<open>realloc\<close> does (\<^verbatim>\<open>PyErr_NoMemory\<close>); a control block of the wrong size ends the
  walk with return value 0 and no exception set.
\<close>

partial_function (option) unix_fetch ::
  "freebsd_kernel \<Rightarrow> string option \<Rightarrow> nat \<Rightarrow> 64 word \<Rightarrow> nat
     \<Rightarrow> (py_exc + 64 word \<times> (nat \<Rightarrow> xunp)) option" where
  "unix_fetch K varname k bufsize retry =
     (if \<not> realloc_pcb K varname k bufsize then Some (Inl MemoryError)
      else
        (case unpcblist K varname k bufsize of
           Inl e \<Rightarrow>
             if e \<noteq> ENOMEM then Some (Inl (NullTypeErrno e))
             else unix_fetch K varname (Suc k) (bufsize * 2) retry
         | Inr (len, buf) \<Rightarrow>
             if xu_len (buf 0) \<noteq> sizeof_xunpgen K
                \<or> xu_len (buf (unat (len - sizeof_xunpgen K))) \<noteq> sizeof_xunpgen K
             then Some (Inl (RuntimeError ''struct xinpgen size mismatch''))
             else if xug_gen (buf 0) \<noteq> xug_gen (buf (unat (len - sizeof_xunpgen K)))
                     \<and> retry \<noteq> 0
             then unix_fetch K varname (Suc k) bufsize (retry - 1)
             else Some (Inr (len, buf))))"

text \<open>
  \<^verbatim>\<open>snprintf(path, sizeof(path), "%.*s", (int)(sun->sun_len - (sizeof *sun -
  sizeof(sun->sun_path))), sun->sun_path)\<close>: the precision is computed in \<^verbatim>\<open>size_t\<close>
  and cast to \<^verbatim>\<open>int\<close>; a negative precision is taken as if it were omitted. The
  offset of \<^verbatim>\<open>sun_path\<close> in \<^verbatim>\<open>struct sockaddr_un\<close> is 2 and \<^verbatim>\<open>PATH_MAX\<close> is 1024 on
  FreeBSD.
\<close>

definition unix_path :: "xunp \<Rightarrow> string" where
  "unix_path xup =
     (let prec = sint (ucast ((ucast (sun_len xup) :: 64 word) - 2) :: 32 word);
          str = takeWhile (\<lambda>c. c \<noteq> CHR 0x00) (sun_path xup)
      in take 1023 (if prec < 0 then str else take (nat prec) str))"

definition unix_entry ::
  "freebsd_kernel \<Rightarrow> 32 word \<Rightarrow> (nat \<Rightarrow> xfile) \<Rightarrow> 32 word \<Rightarrow> xunp
     \<Rightarrow> py_exc + conn option" where
  "unix_entry K proto psutil_xfiles psutil_nxfiles xup =
     (if xu_len xup \<noteq> sizeof_xunpcb K then Inl NoExceptionSet
      else
        let hash = sock_hash_of (xu_so xup);
            pid = psutil_get_pid_from_sock psutil_xfiles psutil_nxfiles hash
        in
          if sint pid < 0 then Inr None
          else
            Inr (Some \<lparr>fd = -1, family = Some AF_UNIX, sock_type = proto,
                       laddr = AddrPath (unix_path xup), raddr = AddrNone,
                       status = PSUTIL_CONN_NONE, owner_pid = pid\<rparr>))"

partial_function (option) unix_walk ::
  "freebsd_kernel \<Rightarrow> 32 word \<Rightarrow> (nat \<Rightarrow> xfile) \<Rightarrow> 32 word
     \<Rightarrow> (nat \<Rightarrow> xunp) \<Rightarrow> 64 word \<Rightarrow> 64 word \<Rightarrow> conn list \<Rightarrow> (py_exc + conn list) option" where
  "unix_walk K proto psutil_xfiles psutil_nxfiles buf exug xug py_retlist =
     (if exug \<le> xug + xu_len (buf (unat xug)) then Some (Inr py_retlist)
      else
        (case unix_entry K proto psutil_xfiles psutil_nxfiles
                (buf (unat (xug + xu_len (buf (unat xug))))) of
           Inl e \<Rightarrow> Some (Inl e)
         | Inr None \<Rightarrow>
             unix_walk K proto psutil_xfiles psutil_nxfiles buf exug
               (xug + xu_len (buf (unat xug))) py_retlist
         | Inr (Some c) \<Rightarrow>
             unix_walk K proto psutil_xfiles psutil_nxfiles buf exug
               (xug + xu_len (buf (unat xug))) (py_retlist @ [c])))"

definition psutil_gather_unix ::
  "freebsd_kernel \<Rightarrow> 32 word \<Rightarrow> (nat \<Rightarrow> xfile) \<Rightarrow> 32 word \<Rightarrow> conn list
     \<Rightarrow> (py_exc + conn list) option" where
  "psutil_gather_unix K proto psutil_xfiles psutil_nxfiles py_retlist =
     (let varname = (if proto = SOCK_STREAM then Some ''net.local.stream.pcblist''
                     else if proto = SOCK_DGRAM then Some ''net.local.dgram.pcblist''
                     else None)
      in
        case unix_fetch K varname 0 8192 5 of
          None \<Rightarrow> None
        | Some (Inl e) \<Rightarrow> Some (Inl e)
        | Some (Inr (len, buf)) \<Rightarrow>
            unix_walk K proto psutil_xfiles psutil_nxfiles buf
              (len - sizeof_xunpgen K) 0 py_retlist)"

text \<open>Sequencing of calls that may fail or not return: go on with the value of a call
  that returned without an exception.\<close>

definition and_then ::
  "(py_exc + 'a) option \<Rightarrow> ('a \<Rightarrow> (py_exc + 'b) option) \<Rightarrow> (py_exc + 'b) option" where
  "and_then m f =
     (case m of None \<Rightarrow> None | Some (Inl e) \<Rightarrow> Some (Inl e) | Some (Inr v) \<Rightarrow> f v)"

text \<open>\<^verbatim>\<open>psutil_net_connections\<close> of \<^verbatim>\<open>arch/bsd/freebsd_socks.c\<close>: \<^verbatim>\<open>NULL\<close> with the
  exception, or the list.\<close>

definition freebsd_psutil_net_connections ::
  "freebsd_kernel \<Rightarrow> libc \<Rightarrow> (py_exc + conn list) option" where
  "freebsd_psutil_net_connections K C =
     and_then (psutil_populate_xfiles K) (\<lambda>(psutil_xfiles, psutil_nxfiles).
     and_then (psutil_gather_inet K C IPPROTO_TCP psutil_xfiles psutil_nxfiles []) (\<lambda>l1.
     and_then (psutil_gather_inet K C IPPROTO_UDP psutil_xfiles psutil_nxfiles l1) (\<lambda>l2.
     and_then (psutil_gather_unix K SOCK_STREAM psutil_xfiles psutil_nxfiles l2) (\<lambda>l3.
     psutil_gather_unix K SOCK_DGRAM psutil_xfiles psutil_nxfiles l3))))"

section \<open>NetBSD: system-wide connections\<close>

text \<open>
  \<^verbatim>\<open>arch/bsd/netbsd_socks.c\<close>. The two \<^verbatim>\<open>SLIST\<close>s \<^verbatim>\<open>kihead\<close> and \<^verbatim>\<open>kpcbhead\<close> are
  lists with the head first. \<^verbatim>\<open>struct sockaddr\<close> storage is modelled by what each
  cast of it reads.
\<close>

definition AF_INET6_NETBSD :: "32 word" where "AF_INET6_NETBSD = 24"

record kinfo_file =
  ki_pid :: "32 word"
  ki_fd :: "32 word"
  ki_fdata :: "64 word"

record sockaddr =
  sin_addr :: "32 word"
  sin_port :: "16 word"
  sin6_addr :: "128 word"
  sin6_port :: "16 word"
  sa_path :: string

record kinfo_pcb =
  ki_sockaddr :: "64 word"
  ki_family :: "32 word"
  ki_type :: "32 word"
  ki_tstate :: "32 word"
  ki_src :: sockaddr
  ki_dst :: sockaddr

text \<open>
  The kernel and the allocator: each \<^verbatim>\<open>sysctl\<close> answers \<open>Inl errno\<close> or \<open>Inr\<close> its
  result (a length, or the length written and the buffer as an array);
  \<^verbatim>\<open>sysctlnametomib\<close> answers \<open>Some errno\<close> when it fails. The socket calls take the
  \<^verbatim>\<open>sysctl\<close> name. The \<^verbatim>\<open>sizeof\<close> of the kernel types are parameters.
\<close>

record netbsd_kernel =
  files_size :: "int + 64 word"
  files_malloc :: "64 word \<Rightarrow> bool"
  files_fetch :: "64 word \<Rightarrow> int + 64 word \<times> (nat \<Rightarrow> kinfo_file)"
  nametomib :: "string \<Rightarrow> int option"
  pcb_size :: "string \<Rightarrow> int + 64 word"
  pcb_malloc :: "string \<Rightarrow> 64 word \<Rightarrow> bool"
  pcb_fetch :: "string \<Rightarrow> 64 word \<Rightarrow> int + 64 word \<times> (nat \<Rightarrow> kinfo_pcb)"
  sizeof_kinfo_file :: "64 word"
  sizeof_kinfo_pcb :: "64 word"
  sizeof_off_t :: "64 word"

text \<open>\<^verbatim>\<open>for (j = 0; j < len; j++) SLIST_INSERT_HEAD(...)\<close> over the array \<open>a\<close>.\<close>

definition slist_insert_all :: "(nat \<Rightarrow> 'a) \<Rightarrow> 64 word \<Rightarrow> 'a list \<Rightarrow> 'a list" where
  "slist_insert_all a len head = foldl (\<lambda>h j. a j # h) head [0 ..< unat len]"

text \<open>\<^verbatim>\<open>psutil_get_files\<close>: the exception (return value -1) or the new \<^verbatim>\<open>kihead\<close>.\<close>

definition psutil_get_files ::
  "netbsd_kernel \<Rightarrow> kinfo_file list \<Rightarrow> py_exc + kinfo_file list" where
  "psutil_get_files K kihead =
     (case files_size K of
        Inl e \<Rightarrow> Inl (OSError e)
      | Inr len \<Rightarrow>
          if \<not> files_malloc K (len + len mod sizeof_off_t K) then Inl MemoryError
          else
            (case files_fetch K len of
               Inl e \<Rightarrow> Inl (OSError e)
             | Inr (len', ki) \<Rightarrow>
                 Inr (slist_insert_all ki (len' div sizeof_kinfo_file K) kihead)))"

text \<open>\<^verbatim>\<open>psutil_get_sockets\<close>: the exception or the new \<^verbatim>\<open>kpcbhead\<close>.\<close>

definition psutil_get_sockets ::
  "netbsd_kernel \<Rightarrow> string \<Rightarrow> kinfo_pcb list \<Rightarrow> py_exc + kinfo_pcb list" where
  "psutil_get_sockets K name kpcbhead =
     (case nametomib K name of
        Some e \<Rightarrow> Inl (OSError e)
      | None \<Rightarrow>
          (case pcb_size K name of
             Inl e \<Rightarrow> Inl (OSError e)
           | Inr len \<Rightarrow>
               if \<not> pcb_malloc K name len then Inl MemoryError
               else
                 (case pcb_fetch K name len of
                    Inl e \<Rightarrow> Inl (OSError e)
                  | Inr (len', kp) \<Rightarrow>
                      Inr (slist_insert_all kp (len' div sizeof_kinfo_pcb K) kpcbhead))))"

datatype af_filter =
  INET | INET4 | INET6 | TCP | TCP4 | TCP6 | UDP | UDP4 | UDP6 | UNIX | ALL_FAMILIES

text \<open>The names \<^verbatim>\<open>psutil_get_info\<close> fetches for a filter, in order
  (\<open>ALL_FAMILIES\<close> is the enumerator \<^verbatim>\<open>ALL\<close>).\<close>

fun af_names :: "af_filter \<Rightarrow> string list" where
  "af_names INET = [''net.inet.tcp.pcblist'', ''net.inet.udp.pcblist'',
                    ''net.inet6.tcp6.pcblist'', ''net.inet6.udp6.pcblist'']"
| "af_names INET4 = [''net.inet.tcp.pcblist'', ''net.inet.udp.pcblist'']"
| "af_names INET6 = [''net.inet6.tcp6.pcblist'', ''net.inet6.udp6.pcblist'']"
| "af_names TCP = [''net.inet.tcp.pcblist'', ''net.inet6.tcp6.pcblist'']"
| "af_names TCP4 = [''net.inet.tcp.pcblist'']"
| "af_names TCP6 = [''net.inet6.tcp6.pcblist'']"
| "af_names UDP = [''net.inet.udp.pcblist'', ''net.inet6.udp6.pcblist'']"
| "af_names UDP4 = [''net.inet.udp.pcblist'']"
| "af_names UDP6 = [''net.inet6.udp6.pcblist'']"
| "af_names UNIX = [''net.local.stream.pcblist'', ''net.local.seqpacket.pcblist'',
                    ''net.local.dgram.pcblist'']"
| "af_names ALL_FAMILIES =
     [''net.inet.tcp.pcblist'', ''net.inet.udp.pcblist'',
      ''net.inet6.tcp6.pcblist'', ''net.inet6.udp6.pcblist'',
      ''net.local.stream.pcblist'', ''net.local.seqpacket.pcblist'',
      ''net.local.dgram.pcblist'']"

primrec get_sockets_each ::
  "netbsd_kernel \<Rightarrow> string list \<Rightarrow> kinfo_pcb list \<Rightarrow> py_exc + kinfo_pcb list" where
  "get_sockets_each K [] kpcbhead = Inr kpcbhead"
| "get_sockets_each K (name # names) kpcbhead =
     (case psutil_get_sockets K name kpcbhead of
        Inl e \<Rightarrow> Inl e
      | Inr kpcbhead' \<Rightarrow> get_sockets_each K names kpcbhead')"

definition psutil_get_info ::
  "netbsd_kernel \<Rightarrow> af_filter \<Rightarrow> kinfo_pcb list \<Rightarrow> py_exc + kinfo_pcb list" where
  "psutil_get_info K aff kpcbhead = get_sockets_each K (af_names aff) kpcbhead"

text \<open>
  The body of the inner loop of \<^verbatim>\<open>psutil_net_connections\<close> (lines 339 to 430) for a
  file entry and a control block that matched. \<^verbatim>\<open>py_laddr\<close> and \<^verbatim>\<open>py_raddr\<close> are
  variables of the function, \<^verbatim>\<open>NULL\<close> at first; the body returns them with the tuple.
  For a family other than \<^verbatim>\<open>AF_INET\<close>, \<^verbatim>\<open>AF_INET6\<close> and \<^verbatim>\<open>AF_UNIX\<close> there is no
  branch: the tuple is built from the address objects the last tuple was built from,
  and from \<^verbatim>\<open>status\<close>, a variable of the loop body that no statement has assigned.
  The value it holds there is the parameter \<open>unassigned\<close>. With the format \<^verbatim>\<open>N\<close>,
  \<^verbatim>\<open>Py_BuildValue\<close> fails on a \<^verbatim>\<open>NULL\<close> object.
\<close>

definition c_string :: "string \<Rightarrow> string" where
  "c_string bytes = takeWhile (\<lambda>c. c \<noteq> CHR 0x00) bytes"

record addr_objs =
  py_laddr :: "py_addr option"
  py_raddr :: "py_addr option"

definition netbsd_conn ::
  "libc \<Rightarrow> 32 word \<Rightarrow> kinfo_file \<Rightarrow> kinfo_pcb \<Rightarrow> addr_objs \<Rightarrow> py_exc + conn \<times> addr_objs" where
  "netbsd_conn C unassigned k kp objs =
     (if ki_family kp = AF_INET \<or> ki_family kp = AF_INET6_NETBSD then
        let v4 = (ki_family kp = AF_INET);
            lip = (if v4 then inet_ntop4 C (sin_addr (ki_src kp))
                   else inet_ntop6 C (sin6_addr (ki_src kp)));
            lport = uint (ntohs C (if v4 then sin_port (ki_src kp) else sin6_port (ki_src kp)));
            rip = (if v4 then inet_ntop4 C (sin_addr (ki_dst kp))
                   else inet_ntop6 C (sin6_addr (ki_dst kp)));
            rport = uint (ntohs C (if v4 then sin_port (ki_dst kp) else sin6_port (ki_dst kp)));
            la = AddrPort (Some lip) lport;
            ra = (if rport \<noteq> 0 then AddrPort (Some rip) rport else AddrEmpty)
        in
          Inr (\<lparr>fd = sint (ki_fd k), family = Some (ki_family kp), sock_type = ki_type kp,
                laddr = la, raddr = ra,
                status = (if ki_type kp = SOCK_STREAM then ki_tstate kp else PSUTIL_CONN_NONE),
                owner_pid = ki_pid k\<rparr>,
               \<lparr>py_laddr = Some la, py_raddr = Some ra\<rparr>)
      else if ki_family kp = AF_UNIX then
        let la = AddrPath (c_string (sa_path (ki_src kp)));
            ra = AddrPath (c_string (sa_path (ki_dst kp)))
        in
          Inr (\<lparr>fd = sint (ki_fd k), family = Some (ki_family kp), sock_type = ki_type kp,
                laddr = la, raddr = ra, status = PSUTIL_CONN_NONE, owner_pid = ki_pid k\<rparr>,
               \<lparr>py_laddr = Some la, py_raddr = Some ra\<rparr>)
      else
        (case py_laddr objs of
           None \<Rightarrow> Inl (SystemError ''NULL object passed to Py_BuildValue'')
         | Some la \<Rightarrow>
             (case py_raddr objs of
                None \<Rightarrow> Inl (SystemError ''NULL object passed to Py_BuildValue'')
              | Some ra \<Rightarrow>
                  Inr (\<lparr>fd = sint (ki_fd k), family = Some (ki_family kp),
                        sock_type = ki_type kp, laddr = la, raddr = ra,
                        status = unassigned, owner_pid = ki_pid k\<rparr>,
                       objs))))"

text \<open>The inner \<^verbatim>\<open>SLIST_FOREACH(kp, &kpcbhead, kpcbs)\<close> for one file entry \<open>k\<close>. The
  state is \<^verbatim>\<open>py_retlist\<close> with the two address variables.\<close>

primrec join_sockets ::
  "libc \<Rightarrow> 32 word \<Rightarrow> kinfo_file \<Rightarrow> kinfo_pcb list \<Rightarrow> conn list \<times> addr_objs
     \<Rightarrow> py_exc + conn list \<times> addr_objs" where
  "join_sockets C unassigned k [] st = Inr st"
| "join_sockets C unassigned k (kp # kps) st =
     (if ki_fdata k \<noteq> ki_sockaddr kp then join_sockets C unassigned k kps st
      else
        (case netbsd_conn C unassigned k kp (snd st) of
           Inl e \<Rightarrow> Inl e
         | Inr (c, objs) \<Rightarrow> join_sockets C unassigned k kps (fst st @ [c], objs)))"

text \<open>The outer \<^verbatim>\<open>SLIST_FOREACH(k, &kihead, kifs)\<close>.\<close>

primrec join_files ::
  "libc \<Rightarrow> 32 word \<Rightarrow> 32 word \<Rightarrow> kinfo_file list \<Rightarrow> kinfo_pcb list \<Rightarrow> conn list \<times> addr_objs
     \<Rightarrow> py_exc + conn list \<times> addr_objs" where
  "join_files C unassigned pid [] kpcbhead st = Inr st"
| "join_files C unassigned pid (k # ks) kpcbhead st =
     (if pid \<noteq> -1 \<and> ki_pid k \<noteq> pid then join_files C unassigned pid ks kpcbhead st
      else
        (case join_sockets C unassigned k kpcbhead st of
           Inl e \<Rightarrow> Inl e
         | Inr st' \<Rightarrow> join_files C unassigned pid ks kpcbhead st'))"

text \<open>\<^verbatim>\<open>psutil_net_connections\<close> of \<^verbatim>\<open>arch/bsd/netbsd_socks.c\<close>.\<close>

definition netbsd_psutil_net_connections ::
  "netbsd_kernel \<Rightarrow> libc \<Rightarrow> 32 word \<Rightarrow> 32 word \<Rightarrow> py_exc + conn list" where
  "netbsd_psutil_net_connections K C unassigned pid =
     (case psutil_get_files K [] of
        Inl e \<Rightarrow> Inl e
      | Inr kihead \<Rightarrow>
          (case psutil_get_info K ALL_FAMILIES [] of
             Inl e \<Rightarrow> Inl e
           | Inr kpcbhead \<Rightarrow>
               (case join_files C unassigned pid kihead kpcbhead
                       ([], \<lparr>py_laddr = None, py_raddr = None\<rparr>) of
                  Inl e \<Rightarrow> Inl e
                | Inr (py_retlist, objs) \<Rightarrow> Inr py_retlist)))"

section \<open>Concrete scenarios\<close>

text \<open>Kernels and states the theorems below are run on.\<close>

definition kill_esrch :: kill_fn where "kill_esrch p = Some ESRCH"
definition kill_eperm :: kill_fn where "kill_eperm p = Some EPERM"
definition kill_ok :: kill_fn where "kill_ok p = None"

definition posix_clean :: posix_state where
  "posix_clean = \<lparr>errno = 0, py_err = None, kill_log = []\<rparr>"

definition posix_enomem :: posix_state where
  "posix_enomem = \<lparr>errno = ENOMEM, py_err = None, kill_log = []\<rparr>"


text \<open>\<^verbatim>\<open>CloseHandle(NULL)\<close> fails with \<^verbatim>\<open>ERROR_INVALID_HANDLE\<close> (6).\<close>

definition close_handle :: "handle option \<Rightarrow> 32 word option" where
  "close_handle h = (case h of None \<Rightarrow> Some 6 | Some x \<Rightarrow> None)"


definition win_denied :: win32 where
  "win_denied =
     \<lparr>OpenProcess = (\<lambda>access pid. Inr ERROR_ACCESS_DENIED),
      GetExitCodeProcess = (\<lambda>h. Inl STILL_ACTIVE),
      CloseHandle = close_handle\<rparr>"

definition win_clean :: win_state where
  "win_clean = \<lparr>last_error = 0, win_err = None, win_log = []\<rparr>"

definition malloc_always :: malloc_fn where
  "malloc_always n len = True"

text \<open>A table call that reports "buffer too small" on every invocation.\<close>

definition table_always_insufficient :: ext_table_call where
  "table_always_insufficient n buf len af cls = (ERROR_INSUFFICIENT_BUFFER, 4096)"

text \<open>A table that grows once between the size query and the fetch: the size query
  asks for 64 bytes, the first fetch for 128, the second fetch succeeds.\<close>

definition table_grows_once :: ext_table_call where
  "table_grows_once n buf len af cls =
     (if n = 0 then (ERROR_INSUFFICIENT_BUFFER, 64)
      else if n = 1 then (ERROR_INSUFFICIENT_BUFFER, 128)
      else (NO_ERROR, len))"

definition query_always_mismatch :: "nat \<Rightarrow> 32 word \<Rightarrow> 32 word" where
  "query_always_mismatch n len = STATUS_INFO_LENGTH_MISMATCH"

text \<open>A macOS kernel whose process table outgrows every buffer: the size query asks
  for ten entries, every fetch fails with \<^verbatim>\<open>ENOMEM\<close>.\<close>

definition osx_always_enomem :: osx_kernel where
  "osx_always_enomem =
     \<lparr>sysctl_size = (\<lambda>k. Inr 6480),
      malloc_ok = (\<lambda>k len. True),
      sysctl_fetch = (\<lambda>k len. Inl ENOMEM),
      sizeof_kinfo_proc = 648\<rparr>"

text \<open>A machine with no swap device: \<^verbatim>\<open>swapctl(SWAP_NSWAP)\<close> answers 0.\<close>

definition no_swap_kernel :: swap_kernel where
  "no_swap_kernel =
     \<lparr>swapctl_NSWAP = 0, calloc_swdev = True,
      swapctl_STATS = Inr (\<lambda>i. \<lparr>se_flags = 0, se_nblks = 0, se_inuse = 0\<rparr>),
      sysctl_uvmexp2 = Inr (0, 0), getpagesize = 4096, DEV_BSIZE = 512, SWF_ENABLE = 2\<rparr>"

text \<open>
  A FreeBSD machine with small struct sizes. The open-file table has two entries: pid
  77 holds the socket at \<open>0x1F6A\<close>, pid 88 holds a file with no kernel object. The TCP
  list has three sockets, at \<open>0x1F6A\<close>, at \<open>0x3000\<close> (which no entry's hash matches) and
  at \<open>0x235B\<close> (which is \<open>0x1F6A + 1009\<close>: another socket, with the hash of the first); the other lists are
  empty. \<^verbatim>\<open>kern.file\<close> needs a buffer of 256 bytes.
\<close>

definition libc_demo :: libc where
  "libc_demo =
     \<lparr>ntohs = (\<lambda>w. w), inet_ntop4 = (\<lambda>a. ''10.0.0.1''), inet_ntop6 = (\<lambda>a. ''::1'')\<rparr>"

definition demo_xfiles :: "nat \<Rightarrow> xfile" where
  "demo_xfiles i =
     (if i = 0 then \<lparr>xf_size = 128, xf_pid = 77, xf_data = 0x1F6A\<rparr>
      else \<lparr>xf_size = 128, xf_pid = 88, xf_data = 0\<rparr>)"

definition demo_xinp :: "64 word \<Rightarrow> 64 word \<Rightarrow> xinp" where
  "demo_xinp len so =
     \<lparr>x_len = len, xig_gen = 1, xso_so = so, inp_vflag = 1, inp_lport = 80, inp_fport = 0,
      inp_laddr = 0, inp_faddr = 0, in6p_laddr = 0, in6p_faddr = 0, t_state = 1\<rparr>"

definition demo_tcp_buf :: "nat \<Rightarrow> xinp" where
  "demo_tcp_buf off =
     (if off = 24 then demo_xinp 64 0x1F6A
      else if off = 88 then demo_xinp 64 0x3000
      else if off = 152 then demo_xinp 64 0x235B
      else demo_xinp 24 0)"

definition demo_empty_buf :: "nat \<Rightarrow> xinp" where
  "demo_empty_buf off = demo_xinp 24 0"

definition demo_unix_buf :: "nat \<Rightarrow> xunp" where
  "demo_unix_buf off = \<lparr>xu_len = 24, xug_gen = 1, xu_so = 0, sun_len = 0, sun_path = []\<rparr>"

definition fbsd_demo :: freebsd_kernel where
  "fbsd_demo =
     \<lparr>malloc_xfiles = True,
      kern_file = (\<lambda>k len. if len < 256 then Inl ENOMEM else Inr (256, demo_xfiles)),
      realloc_xfiles = (\<lambda>k len. True),
      pcblist = (\<lambda>v k bs. if v = Some ''net.inet.tcp.pcblist'' then Inr (240, demo_tcp_buf)
                           else Inr (48, demo_empty_buf)),
      unpcblist = (\<lambda>v k bs. Inr (48, demo_unix_buf)),
      realloc_pcb = (\<lambda>v k bs. True),
      sizeof_xfile = 128, sizeof_xinpgen = 24, sizeof_xtcpcb = 64, sizeof_xinpcb = 48,
      sizeof_xunpgen = 24, sizeof_xunpcb = 56\<rparr>"

text \<open>The tuple the two owned sockets of \<open>fbsd_demo\<close> give.\<close>

definition demo_conn :: conn where
  "demo_conn =
     \<lparr>fd = -1, family = Some AF_INET, sock_type = SOCK_STREAM,
      laddr = AddrPort (Some ''10.0.0.1'') 80, raddr = AddrEmpty, status = 1,
      owner_pid = 77\<rparr>"

text \<open>The same machine when the \<^verbatim>\<open>kern.file\<close> fetch is refused (\<^verbatim>\<open>EPERM\<close>).\<close>

definition fbsd_no_owner_table :: freebsd_kernel where
  "fbsd_no_owner_table = fbsd_demo\<lparr>kern_file := (\<lambda>k len. Inl EPERM)\<rparr>"


text \<open>
  Two NetBSD machines with one open file (pid 77, descriptor 3, kernel object at
  \<open>0x1F6A\<close>) and one TCP socket. On \<open>nbsd_match\<close> the socket is that kernel object; on
  \<open>nbsd_collision\<close> it is the object at \<open>0x235B\<close>, which has the same hash.
\<close>

definition nbsd_file :: kinfo_file where
  "nbsd_file = \<lparr>ki_pid = 77, ki_fd = 3, ki_fdata = 0x1F6A\<rparr>"

definition nbsd_addr :: sockaddr where
  "nbsd_addr = \<lparr>sin_addr = 0, sin_port = 80, sin6_addr = 0, sin6_port = 0, sa_path = []\<rparr>"

definition nbsd_pcb :: "64 word \<Rightarrow> kinfo_pcb" where
  "nbsd_pcb so =
     \<lparr>ki_sockaddr = so, ki_family = AF_INET, ki_type = SOCK_STREAM, ki_tstate = 1,
      ki_src = nbsd_addr, ki_dst = nbsd_addr\<lparr>sin_port := 0\<rparr>\<rparr>"

definition nbsd_machine :: "64 word \<Rightarrow> netbsd_kernel" where
  "nbsd_machine so =
     \<lparr>files_size = Inr 100, files_malloc = (\<lambda>len. True),
      files_fetch = (\<lambda>len. Inr (100, \<lambda>i. nbsd_file)),
      nametomib = (\<lambda>name. None),
      pcb_size = (\<lambda>name. Inr (if name = ''net.inet.tcp.pcblist'' then 200 else 0)),
      pcb_malloc = (\<lambda>name len. True),
      pcb_fetch = (\<lambda>name len.
        Inr (if name = ''net.inet.tcp.pcblist'' then 200 else 0, \<lambda>i. nbsd_pcb so)),
      sizeof_kinfo_file = 100, sizeof_kinfo_pcb = 200, sizeof_off_t = 8\<rparr>"

definition nbsd_match :: netbsd_kernel where
  "nbsd_match = nbsd_machine 0x1F6A"

definition nbsd_collision :: netbsd_kernel where
  "nbsd_collision = nbsd_machine 0x235B"

definition nbsd_conn :: conn where
  "nbsd_conn =
     \<lparr>fd = 3, family = Some AF_INET, sock_type = SOCK_STREAM,
      laddr = AddrPort (Some ''10.0.0.1'') 80, raddr = AddrEmpty, status = 1,
      owner_pid = 77\<rparr>"








section \<open>Properties of the classifier\<close>

lemma psutil_pid_exists_negative:
  "sint pid < 0 \<Longrightarrow> psutil_pid_exists plat kill pid s = (0, s)"
  by (simp add: psutil_pid_exists_def)

lemma psutil_pid_exists_range:
  "fst (psutil_pid_exists plat kill pid s) \<in> {-1, 0, 1}"
  by (auto simp: psutil_pid_exists_def do_kill_def split: option.splits)

text \<open>
  C4. When \<^verbatim>\<open>errno\<close> is nonzero the classifier surfaces it as \<^verbatim>\<open>OSError(errno)\<close>
  and does not probe (no \<^verbatim>\<open>kill\<close> is issued). When \<^verbatim>\<open>errno\<close> is zero it probes with
  \<^verbatim>\<open>psutil_pid_exists\<close>: if the probe answers 0 (does not exist) the exception is
  \<^verbatim>\<open>NoSuchProcess\<close>, and if it answers anything else (1, exists, or -1, the probe
  itself failed) the exception is \<^verbatim>\<open>RuntimeError\<close> carrying the caller's message. The
  function always returns 0.
\<close>

theorem raise_for_pid_probe_disambiguation:
  assumes "psutil_raise_for_pid plat kill pid msg s = (r, s')"
  shows "r = 0
    \<and> (errno s \<noteq> 0 \<longrightarrow>
          py_err s' = Some (OSError (errno s)) \<and> kill_log s' = kill_log s)
    \<and> (errno s = 0 \<and> fst (psutil_pid_exists plat kill pid s) = 0 \<longrightarrow>
          py_err s' = Some NoSuchProcess)
    \<and> (errno s = 0 \<and> fst (psutil_pid_exists plat kill pid s) \<noteq> 0 \<longrightarrow>
          py_err s' = Some (RuntimeError msg))"
  using assms
  by (auto simp: psutil_raise_for_pid_def split: prod.splits if_splits)

theorem raise_for_pid_probe_disambiguation_witness:
  "py_err (snd (psutil_raise_for_pid OSX kill_esrch 4242 ''proc_pidinfo() syscall failed''
                  posix_clean)) = Some NoSuchProcess
   \<and> py_err (snd (psutil_raise_for_pid OSX kill_ok 4242 ''proc_pidinfo() syscall failed''
                  posix_clean)) = Some (RuntimeError ''proc_pidinfo() syscall failed'')
   \<and> py_err (snd (psutil_raise_for_pid OSX kill_ok 4242 ''proc_pidinfo() syscall failed''
                  posix_enomem)) = Some (OSError ENOMEM)
   \<and> kill_log (snd (psutil_raise_for_pid OSX kill_ok 4242 ''proc_pidinfo() syscall failed''
                  posix_enomem)) = []"
proof -
  let ?m = "''proc_pidinfo() syscall failed''"
  have gone: "fst (psutil_pid_exists OSX kill_esrch 4242 posix_clean) = 0"
    by (simp add: psutil_pid_exists_def do_kill_def kill_esrch_def posix_clean_def ESRCH_def)
  have live: "fst (psutil_pid_exists OSX kill_ok 4242 posix_clean) = 1"
    by (simp add: psutil_pid_exists_def do_kill_def kill_ok_def posix_clean_def)
  have e0: "errno posix_clean = 0" and e1: "errno posix_enomem \<noteq> 0"
    and e2: "errno posix_enomem = ENOMEM" and l2: "kill_log posix_enomem = []"
    by (simp_all add: posix_clean_def posix_enomem_def ENOMEM_def)
  note a = raise_for_pid_probe_disambiguation
    [OF surjective_pairing, of OSX kill_esrch 4242 ?m posix_clean]
  note b = raise_for_pid_probe_disambiguation
    [OF surjective_pairing, of OSX kill_ok 4242 ?m posix_clean]
  note c = raise_for_pid_probe_disambiguation
    [OF surjective_pairing, of OSX kill_ok 4242 ?m posix_enomem]
  from a gone e0 have 1: "py_err (snd (psutil_raise_for_pid OSX kill_esrch 4242 ?m posix_clean))
      = Some NoSuchProcess" by blast
  from b live e0 have 2: "py_err (snd (psutil_raise_for_pid OSX kill_ok 4242 ?m posix_clean))
      = Some (RuntimeError ?m)" by simp
  from c e1 have 3: "py_err (snd (psutil_raise_for_pid OSX kill_ok 4242 ?m posix_enomem))
      = Some (OSError (errno posix_enomem))
    \<and> kill_log (snd (psutil_raise_for_pid OSX kill_ok 4242 ?m posix_enomem))
      = kill_log posix_enomem" by blast
  from 1 2 3 show ?thesis by (simp add: e2 l2)
qed



section \<open>The liveness probe at the public boundary\<close>

lemma psutil_pid_exists_zero:
  "psutil_pid_exists plat kill 0 s = (if plat = LINUX \<or> plat = FREEBSD then 0 else 1, s)"
  by (simp add: psutil_pid_exists_def)

lemma psutil_pid_exists_eperm:
  "0 < sint pid \<Longrightarrow> kill (scast pid) = Some EPERM \<Longrightarrow>
     fst (psutil_pid_exists plat kill pid s) = 1"
  by (auto simp: psutil_pid_exists_def do_kill_def EPERM_def ESRCH_def)

lemma psutil_pid_is_running_zero:
  "psutil_pid_is_running w 0 s = (1, s)"
  by (simp add: psutil_pid_is_running_def)

lemma psutil_pid_is_running_denied:
  "pid \<noteq> 0 \<Longrightarrow>
   OpenProcess w (PROCESS_QUERY_INFORMATION OR PROCESS_VM_READ) pid = Inr ERROR_ACCESS_DENIED \<Longrightarrow>
     fst (psutil_pid_is_running w pid s) = 1"
  by (simp add: psutil_pid_is_running_def do_OpenProcess_def ERROR_ACCESS_DENIED_def
        ERROR_INVALID_PARAMETER_def)

text \<open>
  C10, on Windows. A negative pid given to \<^verbatim>\<open>pid_exists\<close> is not answered "does not
  exist" without a system call: \<^verbatim>\<open>psutil_pid_is_running\<close> takes a \<^verbatim>\<open>DWORD\<close>, its
  test \<^verbatim>\<open>pid < 0\<close> never holds, and the first thing the probe does is call
  \<^verbatim>\<open>OpenProcess\<close> with the pid's bits read as unsigned. If that call is denied, the
  answer is "exists".
\<close>

theorem win_pid_exists_negative_pid_calls_OpenProcess:
  assumes "sint pid < 0"
  shows "take (Suc (length (win_log s))) (win_log (snd (win_psutil_pid_exists w pid s)))
           = win_log s @ [CallOpenProcess (PROCESS_QUERY_INFORMATION OR PROCESS_VM_READ) pid]
    \<and> (OpenProcess w (PROCESS_QUERY_INFORMATION OR PROCESS_VM_READ) pid
           = Inr ERROR_ACCESS_DENIED \<longrightarrow>
         fst (win_psutil_pid_exists w pid s) = Inr True)"
proof -
  from assms have nz: "pid \<noteq> 0" by auto
  have nlt: "\<not> pid < 0" by simp
  show ?thesis
    using nz nlt
    by (auto simp: win_psutil_pid_exists_def psutil_pid_is_running_def do_OpenProcess_def
          do_GetExitCodeProcess_def do_CloseHandle_def PyErr_SetFromWindowsErr0_def
          ERROR_ACCESS_DENIED_def ERROR_INVALID_PARAMETER_def
          split: sum.splits option.splits prod.splits)
qed

theorem win_pid_exists_negative_pid_calls_OpenProcess_witness:
  "sint (-1 :: 32 word) < 0
   \<and> fst (win_psutil_pid_exists win_denied (-1) win_clean) = Inr True
   \<and> take 1 (win_log (snd (win_psutil_pid_exists win_denied (-1) win_clean)))
       = [CallOpenProcess (PROCESS_QUERY_INFORMATION OR PROCESS_VM_READ) (-1)]"
proof -
  have neg: "sint (-1 :: 32 word) < 0" by simp
  have o: "OpenProcess win_denied (PROCESS_QUERY_INFORMATION OR PROCESS_VM_READ) (-1)
      = Inr ERROR_ACCESS_DENIED"
    by (simp add: win_denied_def)
  from win_pid_exists_negative_pid_calls_OpenProcess [OF neg, of win_clean win_denied] o neg
  show ?thesis by (simp add: win_clean_def)
qed

section \<open>Retry loops\<close>

lemma insufficient_buffer_neq [simp]:
  "ERROR_INSUFFICIENT_BUFFER \<noteq> NO_ERROR"
  "ERROR_NOT_ENOUGH_MEMORY \<noteq> ERROR_INSUFFICIENT_BUFFER"
  "ERROR_NOT_ENOUGH_MEMORY \<noteq> NO_ERROR"
  "NO_ERROR \<noteq> ERROR_INSUFFICIENT_BUFFER"
  by (simp_all add: ERROR_INSUFFICIENT_BUFFER_def NO_ERROR_def ERROR_NOT_ENOUGH_MEMORY_def)

lemma extended_table_loop_invariant:
  assumes run: "extended_table_loop call malloc n error dwSize data = Some r"
    and init: "I error data"
    and fail: "\<And>e. e \<noteq> NO_ERROR \<Longrightarrow> I e None"
    and ok: "\<And>len. I NO_ERROR (Some len)"
  shows "fst r \<noteq> ERROR_INSUFFICIENT_BUFFER \<and> I (fst r) (fst (snd r))"
proof -
  have "I error data \<longrightarrow> fst r \<noteq> ERROR_INSUFFICIENT_BUFFER \<and> I (fst r) (fst (snd r))"
  proof (rule extended_table_loop.raw_induct
      [where P = "\<lambda>c m n e s d r. I e d \<longrightarrow>
          fst r \<noteq> ERROR_INSUFFICIENT_BUFFER \<and> I (fst r) (fst (snd r))", OF _ run],
      goal_cases)
    case (1 loop c m n e s d y)
    then show ?case
      using fail ok by (auto split: if_splits prod.splits)
  qed
  with init show ?thesis by simp
qed

lemma extended_table_loop_never_returns:
  assumes busy: "\<And>n buf len. fst (call n buf len) = ERROR_INSUFFICIENT_BUFFER"
    and mem: "\<And>n len. malloc n len"
  shows "extended_table_loop call malloc n ERROR_INSUFFICIENT_BUFFER dwSize data = None"
proof -
  have never: "\<not> (c = call \<and> m = malloc \<and> e = ERROR_INSUFFICIENT_BUFFER)"
    if "extended_table_loop c m k e s d = Some r" for c m k e s d r
    using that
  proof (rule extended_table_loop.raw_induct
      [where P = "\<lambda>c m k e s d r.
          \<not> (c = call \<and> m = malloc \<and> e = ERROR_INSUFFICIENT_BUFFER)", rotated],
      goal_cases)
    case (1 loop c m k e s d y)
    show ?case
    proof
      assume a: "c = call \<and> m = malloc \<and> e = ERROR_INSUFFICIENT_BUFFER"
      obtain e' sz where c: "call (Suc k) True s = (e', sz)" by (cases "call (Suc k) True s")
      with busy [of "Suc k" True s] have e': "e' = ERROR_INSUFFICIENT_BUFFER" by simp
      from 1(2) a c e' mem have "loop call malloc (Suc k) ERROR_INSUFFICIENT_BUFFER sz None = Some y"
        by simp
      from 1(1) [OF this] show False by simp
    qed
  qed
  show ?thesis
  proof (cases "extended_table_loop call malloc n ERROR_INSUFFICIENT_BUFFER dwSize data")
    case None
    then show ?thesis .
  next
    case (Some r)
    from never [OF Some] show ?thesis by simp
  qed
qed

lemma extended_table_loop_exit:
  "error \<noteq> ERROR_INSUFFICIENT_BUFFER \<Longrightarrow>
     extended_table_loop call malloc n error dwSize data = Some (error, data, dwSize)"
  by (subst extended_table_loop.simps) simp

lemma extended_table_loop_returns:
  assumes "(\<forall>len. \<not> malloc (n + k) len)
       \<or> (\<forall>buf len. fst (call (Suc (n + k)) buf len) \<noteq> ERROR_INSUFFICIENT_BUFFER)"
  shows "\<exists>r. extended_table_loop call malloc n error dwSize data = Some r"
  using assms
proof (induction k arbitrary: n error dwSize data)
  case 0
  show ?case
  proof (cases "error = ERROR_INSUFFICIENT_BUFFER")
    case False
    then show ?thesis by (simp add: extended_table_loop_exit)
  next
    case True
    obtain e sz where c: "call (Suc n) True dwSize = (e, sz)" by (cases "call (Suc n) True dwSize")
    show ?thesis
    proof (cases "malloc n dwSize")
      case False
      with True show ?thesis
        by (subst extended_table_loop.simps) (simp add: extended_table_loop_exit)
    next
      case m: True
      with 0 have "fst (call (Suc n) True dwSize) \<noteq> ERROR_INSUFFICIENT_BUFFER" by auto
      with c have "e \<noteq> ERROR_INSUFFICIENT_BUFFER" by simp
      with True m c show ?thesis
        by (subst extended_table_loop.simps) (simp add: extended_table_loop_exit)
    qed
  qed
next
  case (Suc k)
  have later: "\<exists>r. extended_table_loop call malloc (Suc n) e s d = Some r" for e s d
    using Suc.IH [of "Suc n" e s d] Suc.prems by simp
  show ?case
  proof (cases "error = ERROR_INSUFFICIENT_BUFFER")
    case False
    then show ?thesis by (simp add: extended_table_loop_exit)
  next
    case True
    then show ?thesis
      using later
      by (subst extended_table_loop.simps) (auto split: prod.splits)
  qed
qed

lemma handle_info_loop_never_returns:
  assumes busy: "\<And>n len. query n len = STATUS_INFO_LENGTH_MISMATCH"
    and mem: "\<And>n len. alloc n len"
  shows "handle_info_loop query alloc n dwInfoSize = None"
proof -
  have never: "\<not> (q = query \<and> a = alloc)"
    if "handle_info_loop q a k s = Some r" for q a k s r
    using that
  proof (rule handle_info_loop.raw_induct
      [where P = "\<lambda>q a k s r. \<not> (q = query \<and> a = alloc)", rotated], goal_cases)
    case (1 loop q a k s y)
    then show ?case
      using busy mem by (auto split: if_splits)
  qed
  show ?thesis
  proof (cases "handle_info_loop query alloc n dwInfoSize")
    case None
    then show ?thesis .
  next
    case (Some r)
    from never [OF Some] show ?thesis by simp
  qed
qed

lemma get_proc_list_loop_attempts:
  "attempts (get_proc_list_loop K lim k en) \<le> k + lim"
  by (induction K lim k en rule: get_proc_list_loop.induct)
     (auto simp: Let_def split: sum.splits prod.splits)

lemma get_proc_list_loop_always_enomem:
  assumes "\<And>k. \<exists>len. sysctl_size K k = Inr len"
    and "\<And>k len. malloc_ok K k len"
    and "\<And>k len. sysctl_fetch K k len = Inl ENOMEM"
  shows "get_proc_list_loop K lim k en =
     \<lparr>ret = ENOMEM, procList = None, procCount = 0,
      errno_after = (if lim = 0 then en else ENOMEM), attempts = k + lim\<rparr>"
proof (induction lim arbitrary: k en)
  case 0
  show ?case by simp
next
  case (Suc lim)
  from assms(1) obtain len where "sysctl_size K k = Inr len" by blast
  then show ?case
    using assms(2,3) Suc.IH [of "Suc k" ENOMEM]
    by (simp add: Let_def)
qed

text \<open>
  C2, as the code has it. Only the macOS process-list loop counts its attempts:
  \<^verbatim>\<open>psutil_get_proc_list\<close> enters its loop at most 8 times for every kernel, and when
  every fetch fails with \<^verbatim>\<open>ENOMEM\<close> it returns \<^verbatim>\<open>ENOMEM\<close> after exactly 8 attempts,
  which \<^verbatim>\<open>psutil_pids\<close> raises as \<^verbatim>\<open>OSError(ENOMEM)\<close>. The Windows loops have no
  counter: when every call reports "buffer too small" and every allocation succeeds,
  \<^verbatim>\<open>__GetExtendedTcpTable\<close>, \<^verbatim>\<open>__GetExtendedUdpTable\<close> and the handle-table loop of
  \<^verbatim>\<open>psutil_get_open_files_ntqueryobject\<close> never return.
\<close>

theorem retry_bound_holds_on_macos_only:
  "attempts (psutil_get_proc_list K en) \<le> 8
   \<and> ((\<forall>k. \<exists>len. sysctl_size K k = Inr len) \<and> (\<forall>k len. malloc_ok K k len)
        \<and> (\<forall>k len. sysctl_fetch K k len = Inl ENOMEM) \<longrightarrow>
      ret (psutil_get_proc_list K en) = ENOMEM
      \<and> attempts (psutil_get_proc_list K en) = 8
      \<and> osx_psutil_pids K en = Inl (OSError ENOMEM))
   \<and> ((\<forall>n buf len. fst (call n buf len af TCP_TABLE_OWNER_PID_ALL) = ERROR_INSUFFICIENT_BUFFER)
        \<and> (\<forall>n len. malloc n len) \<longrightarrow>
      GetExtendedTcpTable call malloc af = None)
   \<and> ((\<forall>n buf len. fst (call n buf len af UDP_TABLE_OWNER_PID) = ERROR_INSUFFICIENT_BUFFER)
        \<and> (\<forall>n len. malloc n len) \<longrightarrow>
      GetExtendedUdpTable call malloc af = None)
   \<and> ((\<forall>n len. query n len = STATUS_INFO_LENGTH_MISMATCH) \<and> (\<forall>n len. alloc n len) \<longrightarrow>
      fetch_handle_info query alloc = None)"
proof -
  have bound: "attempts (psutil_get_proc_list K en) \<le> 8"
    using get_proc_list_loop_attempts [of K 8 0 en] by (simp add: psutil_get_proc_list_def)
  have osx: "ret (psutil_get_proc_list K en) = ENOMEM
      \<and> attempts (psutil_get_proc_list K en) = 8
      \<and> osx_psutil_pids K en = Inl (OSError ENOMEM)"
    if "\<forall>k. \<exists>len. sysctl_size K k = Inr len" "\<forall>k len. malloc_ok K k len"
      "\<forall>k len. sysctl_fetch K k len = Inl ENOMEM"
  proof -
    from that have "psutil_get_proc_list K en =
        \<lparr>ret = ENOMEM, procList = None, procCount = 0, errno_after = ENOMEM, attempts = 8\<rparr>"
      using get_proc_list_loop_always_enomem [of K 8 0 en]
      by (simp add: psutil_get_proc_list_def)
    then show ?thesis
      by (simp add: osx_psutil_pids_def ENOMEM_def)
  qed
  have tcp: "GetExtendedTcpTable call malloc af = None"
    if "\<forall>n buf len. fst (call n buf len af TCP_TABLE_OWNER_PID_ALL) = ERROR_INSUFFICIENT_BUFFER"
      "\<forall>n len. malloc n len"
  proof -
    obtain e sz where c: "call 0 False 0 af TCP_TABLE_OWNER_PID_ALL = (e, sz)"
      by (cases "call 0 False 0 af TCP_TABLE_OWNER_PID_ALL")
    with that(1) have e: "e = ERROR_INSUFFICIENT_BUFFER"
      by (metis fst_conv)
    show ?thesis
      using that extended_table_loop_never_returns
        [of "\<lambda>n buf len. call n buf len af TCP_TABLE_OWNER_PID_ALL" malloc 0 sz None]
      by (simp add: GetExtendedTcpTable_def c e)
  qed
  have udp: "GetExtendedUdpTable call malloc af = None"
    if "\<forall>n buf len. fst (call n buf len af UDP_TABLE_OWNER_PID) = ERROR_INSUFFICIENT_BUFFER"
      "\<forall>n len. malloc n len"
  proof -
    obtain e sz where c: "call 0 False 0 af UDP_TABLE_OWNER_PID = (e, sz)"
      by (cases "call 0 False 0 af UDP_TABLE_OWNER_PID")
    with that(1) have e: "e = ERROR_INSUFFICIENT_BUFFER"
      by (metis fst_conv)
    show ?thesis
      using that extended_table_loop_never_returns
        [of "\<lambda>n buf len. call n buf len af UDP_TABLE_OWNER_PID" malloc 0 sz None]
      by (simp add: GetExtendedUdpTable_def c e)
  qed
  have hnd: "fetch_handle_info query alloc = None"
    if "\<forall>n len. query n len = STATUS_INFO_LENGTH_MISMATCH" "\<forall>n len. alloc n len"
    using that handle_info_loop_never_returns [of query alloc 0 "0x10000"]
    by (simp add: fetch_handle_info_def)
  from bound osx tcp udp hnd show ?thesis by blast
qed

theorem retry_bound_holds_on_macos_only_witness:
  "ret (psutil_get_proc_list osx_always_enomem 0) = ENOMEM
   \<and> attempts (psutil_get_proc_list osx_always_enomem 0) = 8
   \<and> osx_psutil_pids osx_always_enomem 0 = Inl (OSError ENOMEM)
   \<and> GetExtendedUdpTable table_always_insufficient malloc_always AF_INET = None
   \<and> fetch_handle_info query_always_mismatch malloc_always = None"
proof -
  have 1: "\<forall>k. \<exists>len. sysctl_size osx_always_enomem k = Inr len"
    and 2: "\<forall>k len. malloc_ok osx_always_enomem k len"
    and 3: "\<forall>k len. sysctl_fetch osx_always_enomem k len = Inl ENOMEM"
    by (simp_all add: osx_always_enomem_def)
  have 4: "\<forall>n buf len. fst (table_always_insufficient n buf len AF_INET UDP_TABLE_OWNER_PID)
      = ERROR_INSUFFICIENT_BUFFER"
    and 5: "\<forall>n len. malloc_always n len"
    and 6: "\<forall>n len. query_always_mismatch n len = STATUS_INFO_LENGTH_MISMATCH"
    by (simp_all add: table_always_insufficient_def malloc_always_def query_always_mismatch_def)
  from retry_bound_holds_on_macos_only
    [of osx_always_enomem 0 table_always_insufficient AF_INET malloc_always
       query_always_mismatch malloc_always] 1 2 3 4 5 6
  show ?thesis by blast
qed

text \<open>
  The claim C2 as stated fails on Windows: given a table call that always reports
  \<^verbatim>\<open>ERROR_INSUFFICIENT_BUFFER\<close>, \<^verbatim>\<open>__GetExtendedTcpTable\<close> does not end with an
  error after some number of attempts; it never returns.
\<close>

theorem tcp_table_always_insufficient_never_returns:
  "GetExtendedTcpTable table_always_insufficient malloc_always AF_INET = None"
  using extended_table_loop_never_returns
    [of "\<lambda>n buf len. table_always_insufficient n buf len AF_INET TCP_TABLE_OWNER_PID_ALL"
       malloc_always 0 4096 None]
  by (simp add: GetExtendedTcpTable_def table_always_insufficient_def malloc_always_def)

text \<open>
  C6. Whatever \<^verbatim>\<open>__GetExtendedTcpTable\<close> or \<^verbatim>\<open>__GetExtendedUdpTable\<close> returns, the
  error code is never \<^verbatim>\<open>ERROR_INSUFFICIENT_BUFFER\<close>; a code other than \<^verbatim>\<open>NO_ERROR\<close>
  comes with \<^verbatim>\<open>*data = NULL\<close>; and, the size query not being answered with
  \<^verbatim>\<open>NO_ERROR\<close> (the contract of the system function), \<^verbatim>\<open>NO_ERROR\<close> comes with a
  data buffer. So on exit the result is success with a data buffer or a different
  error code. The helper returns as soon as one allocation fails or one call reports
  something other than "buffer too small".
\<close>

theorem extended_table_transient_absorbed:
  "(GetExtendedTcpTable call malloc af = Some (err, data, len) \<longrightarrow>
      err \<noteq> ERROR_INSUFFICIENT_BUFFER
      \<and> (err \<noteq> NO_ERROR \<longrightarrow> data = None)
      \<and> (err = NO_ERROR \<and> fst (call 0 False 0 af TCP_TABLE_OWNER_PID_ALL) \<noteq> NO_ERROR \<longrightarrow>
           data \<noteq> None))
   \<and> (GetExtendedUdpTable call malloc af = Some (err, data, len) \<longrightarrow>
      err \<noteq> ERROR_INSUFFICIENT_BUFFER
      \<and> (err \<noteq> NO_ERROR \<longrightarrow> data = None)
      \<and> (err = NO_ERROR \<and> fst (call 0 False 0 af UDP_TABLE_OWNER_PID) \<noteq> NO_ERROR \<longrightarrow>
           data \<noteq> None))
   \<and> ((\<forall>len. \<not> malloc k len)
        \<or> (\<forall>buf len. fst (call (Suc k) buf len af TCP_TABLE_OWNER_PID_ALL)
              \<noteq> ERROR_INSUFFICIENT_BUFFER) \<longrightarrow>
      (\<exists>r. GetExtendedTcpTable call malloc af = Some r))
   \<and> ((\<forall>len. \<not> malloc k len)
        \<or> (\<forall>buf len. fst (call (Suc k) buf len af UDP_TABLE_OWNER_PID)
              \<noteq> ERROR_INSUFFICIENT_BUFFER) \<longrightarrow>
      (\<exists>r. GetExtendedUdpTable call malloc af = Some r))"
proof -
  have safe: "err \<noteq> ERROR_INSUFFICIENT_BUFFER
      \<and> (err \<noteq> NO_ERROR \<longrightarrow> data = None)
      \<and> (err = NO_ERROR \<longrightarrow> data \<noteq> None \<or> fst (call 0 False 0 af cls) = NO_ERROR)"
    if run: "(case call 0 False 0 af cls of
        (error, dwSize) \<Rightarrow>
          extended_table_loop (\<lambda>n buf len. call n buf len af cls) malloc 0 error dwSize None)
      = Some (err, data, len)" for cls
  proof -
    obtain e0 sz where c: "call 0 False 0 af cls = (e0, sz)"
      by (cases "call 0 False 0 af cls")
    let ?I = "\<lambda>e d. (e \<noteq> NO_ERROR \<longrightarrow> d = None)
        \<and> (e = NO_ERROR \<longrightarrow> d \<noteq> None \<or> e0 = NO_ERROR)"
    from run c have "extended_table_loop (\<lambda>n buf len. call n buf len af cls) malloc 0 e0 sz None
        = Some (err, data, len)" by simp
    from extended_table_loop_invariant [where I = ?I, OF this]
    show ?thesis by (simp add: c)
  qed
  have live: "\<exists>r. (case call 0 False 0 af cls of
        (error, dwSize) \<Rightarrow>
          extended_table_loop (\<lambda>n buf len. call n buf len af cls) malloc 0 error dwSize None)
      = Some r"
    if "(\<forall>len. \<not> malloc k len)
        \<or> (\<forall>buf len. fst (call (Suc k) buf len af cls) \<noteq> ERROR_INSUFFICIENT_BUFFER)" for cls
  proof -
    obtain e0 sz where c: "call 0 False 0 af cls = (e0, sz)"
      by (cases "call 0 False 0 af cls")
    from that extended_table_loop_returns
      [of malloc 0 k "\<lambda>n buf len. call n buf len af cls" e0 sz None]
    show ?thesis by (simp add: c)
  qed
  from safe [of TCP_TABLE_OWNER_PID_ALL] safe [of UDP_TABLE_OWNER_PID]
    live [of TCP_TABLE_OWNER_PID_ALL] live [of UDP_TABLE_OWNER_PID]
  show ?thesis
    unfolding GetExtendedTcpTable_def GetExtendedUdpTable_def by blast
qed

lemma table_grows_once_run:
  "extended_table_loop (\<lambda>n buf len. table_grows_once n buf len af cls) malloc_always 0
     ERROR_INSUFFICIENT_BUFFER 64 None = Some (NO_ERROR, Some 128, 128)"
  apply (subst extended_table_loop.simps)
  apply (simp add: table_grows_once_def malloc_always_def)
  apply (subst extended_table_loop.simps)
  apply (simp add: table_grows_once_def malloc_always_def)
  apply (simp add: extended_table_loop_exit)
  done

theorem extended_table_transient_absorbed_witness:
  "GetExtendedTcpTable table_grows_once malloc_always AF_INET = Some (NO_ERROR, Some 128, 128)
   \<and> fst (table_grows_once 0 False 0 AF_INET TCP_TABLE_OWNER_PID_ALL) \<noteq> NO_ERROR
   \<and> NO_ERROR \<noteq> ERROR_INSUFFICIENT_BUFFER
   \<and> (Some 128 :: 32 word option) \<noteq> None
   \<and> (\<exists>r. GetExtendedUdpTable table_grows_once malloc_always AF_INET = Some r)"
proof -
  have run: "GetExtendedTcpTable table_grows_once malloc_always AF_INET
      = Some (NO_ERROR, Some 128, 128)"
    using table_grows_once_run [of AF_INET TCP_TABLE_OWNER_PID_ALL]
    by (simp add: GetExtendedTcpTable_def table_grows_once_def)
  have stop: "\<forall>buf len. fst (table_grows_once (Suc 1) buf len AF_INET UDP_TABLE_OWNER_PID)
      \<noteq> ERROR_INSUFFICIENT_BUFFER"
    by (simp add: table_grows_once_def)
  note t = extended_table_transient_absorbed
    [where call = table_grows_once and malloc = malloc_always and af = AF_INET
       and err = NO_ERROR and data = "Some 128" and len = 128 and k = 1]
  have q: "fst (table_grows_once 0 False 0 AF_INET TCP_TABLE_OWNER_PID_ALL) \<noteq> NO_ERROR"
    by (simp add: table_grows_once_def)
  from t run have "NO_ERROR \<noteq> ERROR_INSUFFICIENT_BUFFER" by blast
  moreover from t run q have "(Some 128 :: 32 word option) \<noteq> None" by blast
  moreover from t stop have "\<exists>r. GetExtendedUdpTable table_grows_once malloc_always AF_INET = Some r"
    by blast
  ultimately show ?thesis using run q by blast
qed

section \<open>Empty tables\<close>

text \<open>
  C7. With no swap device the NetBSD function returns the zeroed tuple, and the OpenBSD
  function raises \<^verbatim>\<open>OSError\<close> with whatever \<^verbatim>\<open>errno\<close> holds.
\<close>

theorem swap_mem_no_swap_devices:
  "swapctl_NSWAP K = 0 \<Longrightarrow>
     netbsd_psutil_swap_mem K en = Inr (0, 0, 0, 0, 0)
     \<and> openbsd_psutil_swap_mem K en = Inl (OSError en)"
  by (simp add: netbsd_psutil_swap_mem_def openbsd_psutil_swap_mem_def)

theorem swap_mem_no_swap_devices_witness:
  "swapctl_NSWAP no_swap_kernel = 0
   \<and> netbsd_psutil_swap_mem no_swap_kernel 0 = Inr (0, 0, 0, 0, 0)
   \<and> openbsd_psutil_swap_mem no_swap_kernel 0 = Inl (OSError 0)"
proof -
  have z: "swapctl_NSWAP no_swap_kernel = 0" by (simp add: no_swap_kernel_def)
  from swap_mem_no_swap_devices [OF z, of 0] z show ?thesis by simp
qed

section \<open>FreeBSD and NetBSD connections: the loops\<close>

lemma and_then_simps [simp]:
  "and_then None f = None"
  "and_then (Some (Inl e)) f = Some (Inl e)"
  "and_then (Some (Inr v)) f = f v"
  by (simp_all add: and_then_def)

lemma and_then_Inr:
  "and_then m f = Some (Inr r) \<Longrightarrow> \<exists>v. m = Some (Inr v) \<and> f v = Some (Inr r)"
  by (auto simp: and_then_def split: option.splits sum.splits)

subsection \<open>Unfolding the loops\<close>

lemma populate_loop_done:
  "kern_file K k len = Inr r \<Longrightarrow> populate_loop K k len = Some (Inr r)"
  by (subst populate_loop.simps) simp

lemma populate_loop_error:
  "kern_file K k len = Inl e \<Longrightarrow> e \<noteq> ENOMEM \<Longrightarrow>
     populate_loop K k len = Some (Inl (NullTypeErrno e))"
  by (subst populate_loop.simps) simp

lemma populate_loop_grow:
  "kern_file K k len = Inl ENOMEM \<Longrightarrow> realloc_xfiles K k (len * 2) \<Longrightarrow>
     populate_loop K k len = populate_loop K (Suc k) (len * 2)"
  by (subst populate_loop.simps) simp

lemma inet_fetch_done:
  "realloc_pcb K v k bs \<Longrightarrow> pcblist K v k bs = Inr (len, buf) \<Longrightarrow>
   x_len (buf 0) = sizeof_xinpgen K \<Longrightarrow>
   x_len (buf (unat (len - sizeof_xinpgen K))) = sizeof_xinpgen K \<Longrightarrow>
   xig_gen (buf 0) = xig_gen (buf (unat (len - sizeof_xinpgen K))) \<or> retry = 0 \<Longrightarrow>
     inet_fetch K v k bs retry = Some (Inr (len, buf))"
  by (subst inet_fetch.simps) auto


lemma unix_fetch_done:
  "realloc_pcb K v k bs \<Longrightarrow> unpcblist K v k bs = Inr (len, buf) \<Longrightarrow>
   xu_len (buf 0) = sizeof_xunpgen K \<Longrightarrow>
   xu_len (buf (unat (len - sizeof_xunpgen K))) = sizeof_xunpgen K \<Longrightarrow>
   xug_gen (buf 0) = xug_gen (buf (unat (len - sizeof_xunpgen K))) \<or> retry = 0 \<Longrightarrow>
     unix_fetch K v k bs retry = Some (Inr (len, buf))"
  by (subst unix_fetch.simps) auto

lemma inet_walk_stop:
  "exig \<le> xig + x_len (buf (unat xig)) \<Longrightarrow>
     inet_walk K C proto type xs nx buf exig xig acc = Some (Inr acc)"
  by (subst inet_walk.simps) simp


lemma inet_walk_skip:
  "\<not> exig \<le> xig + x_len (buf (unat xig)) \<Longrightarrow>
   inet_entry K C proto type xs nx (buf (unat (xig + x_len (buf (unat xig))))) = Inr None \<Longrightarrow>
     inet_walk K C proto type xs nx buf exig xig acc
       = inet_walk K C proto type xs nx buf exig (xig + x_len (buf (unat xig))) acc"
  by (subst inet_walk.simps) simp

lemma inet_walk_add:
  "\<not> exig \<le> xig + x_len (buf (unat xig)) \<Longrightarrow>
   inet_entry K C proto type xs nx (buf (unat (xig + x_len (buf (unat xig))))) = Inr (Some c) \<Longrightarrow>
     inet_walk K C proto type xs nx buf exig xig acc
       = inet_walk K C proto type xs nx buf exig (xig + x_len (buf (unat xig))) (acc @ [c])"
  by (subst inet_walk.simps) simp

lemma unix_walk_stop:
  "exug \<le> xug + xu_len (buf (unat xug)) \<Longrightarrow>
     unix_walk K proto xs nx buf exug xug acc = Some (Inr acc)"
  by (subst unix_walk.simps) simp

subsection \<open>What the walks add to the list\<close>

lemma inet_walk_adds:
  assumes run: "inet_walk K C proto type xs nx buf exig xig acc = Some (Inr r)"
    and acc: "\<forall>c \<in> set acc. P c"
    and entry: "\<And>x c. inet_entry K C proto type xs nx x = Inr (Some c) \<Longrightarrow> P c"
  shows "\<forall>c \<in> set r. P c"
proof -
  have "\<forall>r'. y = Inr r' \<longrightarrow> k = K \<and> l = C \<and> p = proto \<and> t = type \<and> a = xs \<and> n = nx
          \<and> (\<forall>c \<in> set ac. P c) \<longrightarrow> (\<forall>c \<in> set r'. P c)"
    if "inet_walk k l p t a n b e x ac = Some y" for k l p t a n b e x ac y
    using that
  proof (rule inet_walk.raw_induct
      [where P = "\<lambda>k l p t a n b e x ac y.
          \<forall>r'. y = Inr r' \<longrightarrow> k = K \<and> l = C \<and> p = proto \<and> t = type \<and> a = xs \<and> n = nx
            \<and> (\<forall>c \<in> set ac. P c) \<longrightarrow> (\<forall>c \<in> set r'. P c)", rotated], goal_cases)
    case (1 walk k l p t a n b e x ac y)
    show ?case
    proof (intro allI impI)
      fix r'
      assume y: "y = Inr r'"
        and pre: "k = K \<and> l = C \<and> p = proto \<and> t = type \<and> a = xs \<and> n = nx
          \<and> (\<forall>c \<in> set ac. P c)"
      let ?next = "x + x_len (b (unat x))"
      show "\<forall>c \<in> set r'. P c"
      proof (cases "e \<le> ?next")
        case True
        with 1(2) y pre show ?thesis by simp
      next
        case False
        show ?thesis
        proof (cases "inet_entry k l p t a n (b (unat ?next))")
          case (Inl err)
          with 1(2) False y show ?thesis by simp
        next
          case (Inr oc)
          show ?thesis
          proof (cases oc)
            case None
            with 1(2) False Inr have "walk k l p t a n b e ?next ac = Some y" by simp
            from 1(1) [OF this] y pre show ?thesis by blast
          next
            case (Some c)
            with 1(2) False Inr have w: "walk k l p t a n b e ?next (ac @ [c]) = Some y" by simp
            from Some Inr pre entry have "P c" by blast
            with pre have "\<forall>c' \<in> set (ac @ [c]). P c'" by auto
            with 1(1) [OF w] y pre show ?thesis by blast
          qed
        qed
      qed
    qed
  qed
  from this [OF run] acc show ?thesis by blast
qed

lemma unix_walk_adds:
  assumes run: "unix_walk K proto xs nx buf exug xug acc = Some (Inr r)"
    and acc: "\<forall>c \<in> set acc. P c"
    and entry: "\<And>x c. unix_entry K proto xs nx x = Inr (Some c) \<Longrightarrow> P c"
  shows "\<forall>c \<in> set r. P c"
proof -
  have "\<forall>r'. y = Inr r' \<longrightarrow> k = K \<and> p = proto \<and> a = xs \<and> n = nx
          \<and> (\<forall>c \<in> set ac. P c) \<longrightarrow> (\<forall>c \<in> set r'. P c)"
    if "unix_walk k p a n b e x ac = Some y" for k p a n b e x ac y
    using that
  proof (rule unix_walk.raw_induct
      [where P = "\<lambda>k p a n b e x ac y.
          \<forall>r'. y = Inr r' \<longrightarrow> k = K \<and> p = proto \<and> a = xs \<and> n = nx
            \<and> (\<forall>c \<in> set ac. P c) \<longrightarrow> (\<forall>c \<in> set r'. P c)", rotated], goal_cases)
    case (1 walk k p a n b e x ac y)
    show ?case
    proof (intro allI impI)
      fix r'
      assume y: "y = Inr r'"
        and pre: "k = K \<and> p = proto \<and> a = xs \<and> n = nx \<and> (\<forall>c \<in> set ac. P c)"
      let ?next = "x + xu_len (b (unat x))"
      show "\<forall>c \<in> set r'. P c"
      proof (cases "e \<le> ?next")
        case True
        with 1(2) y pre show ?thesis by simp
      next
        case False
        show ?thesis
        proof (cases "unix_entry k p a n (b (unat ?next))")
          case (Inl err)
          with 1(2) False y show ?thesis by simp
        next
          case (Inr oc)
          show ?thesis
          proof (cases oc)
            case None
            with 1(2) False Inr have "walk k p a n b e ?next ac = Some y" by simp
            from 1(1) [OF this] y pre show ?thesis by blast
          next
            case (Some c)
            with 1(2) False Inr have w: "walk k p a n b e ?next (ac @ [c]) = Some y" by simp
            from Some Inr pre entry have "P c" by blast
            with pre have "\<forall>c' \<in> set (ac @ [c]). P c'" by auto
            with 1(1) [OF w] y pre show ?thesis by blast
          qed
        qed
      qed
    qed
  qed
  from this [OF run] acc show ?thesis by blast
qed

lemma gather_inet_adds:
  assumes "psutil_gather_inet K C proto xs nx acc = Some (Inr r)"
    and "\<forall>c \<in> set acc. P c"
    and "\<And>type x c. inet_entry K C proto type xs nx x = Inr (Some c) \<Longrightarrow> P c"
  shows "\<forall>c \<in> set r. P c"
  using assms
  by (auto simp: psutil_gather_inet_def Let_def split: option.splits sum.splits prod.splits
           dest!: inet_walk_adds [where P = P])

lemma gather_unix_adds:
  assumes "psutil_gather_unix K proto xs nx acc = Some (Inr r)"
    and "\<forall>c \<in> set acc. P c"
    and "\<And>x c. unix_entry K proto xs nx x = Inr (Some c) \<Longrightarrow> P c"
  shows "\<forall>c \<in> set r. P c"
  using assms
  by (auto simp: psutil_gather_unix_def Let_def split: option.splits sum.splits prod.splits
           dest!: unix_walk_adds [where P = P])

subsection \<open>The runs on the concrete machines\<close>

lemma proto_distinct [simp]:
  "IPPROTO_UDP \<noteq> IPPROTO_TCP" "IPPROTO_TCP \<noteq> IPPROTO_UDP"
  "SOCK_STREAM \<noteq> SOCK_DGRAM" "SOCK_DGRAM \<noteq> SOCK_STREAM"
  by (simp_all add: IPPROTO_UDP_def IPPROTO_TCP_def SOCK_STREAM_def SOCK_DGRAM_def)

lemma demo_populate:
  "psutil_populate_xfiles fbsd_demo = Some (Inr (demo_xfiles, 2))"
proof -
  have 1: "populate_loop fbsd_demo 0 128 = populate_loop fbsd_demo (Suc 0) 256"
    using populate_loop_grow [of fbsd_demo 0 128] by (simp add: fbsd_demo_def)
  have 2: "populate_loop fbsd_demo (Suc 0) 256 = Some (Inr (256, demo_xfiles))"
    by (rule populate_loop_done) (simp add: fbsd_demo_def)
  have s: "sizeof_xfile fbsd_demo = 128" "malloc_xfiles fbsd_demo"
    by (simp_all add: fbsd_demo_def)
  show ?thesis
    by (simp add: psutil_populate_xfiles_def s 1 2 demo_xfiles_def)
qed

lemma demo_table: "xfiles_table demo_xfiles 2 = [demo_xfiles 0, demo_xfiles 1]"
  by (simp add: xfiles_table_def upt_rec numeral_2_eq_2)

lemma demo_lookup:
  "psutil_get_pid_from_sock demo_xfiles 2 (sock_hash_of 0x1F6A) = 77"
  "psutil_get_pid_from_sock demo_xfiles 2 (sock_hash_of 0x235B) = 77"
  "psutil_get_pid_from_sock demo_xfiles 2 (sock_hash_of 0x3000) = -1"
  by (simp_all add: psutil_get_pid_from_sock_def demo_table demo_xfiles_def sock_hash_of_def
        HASHSIZE_def)

lemma demo_entries:
  "inet_entry fbsd_demo libc_demo IPPROTO_TCP SOCK_STREAM demo_xfiles 2 (demo_xinp 64 0x1F6A)
     = Inr (Some demo_conn)"
  "inet_entry fbsd_demo libc_demo IPPROTO_TCP SOCK_STREAM demo_xfiles 2 (demo_xinp 64 0x3000)
     = Inr None"
  "inet_entry fbsd_demo libc_demo IPPROTO_TCP SOCK_STREAM demo_xfiles 2
     (demo_xinp 64 0x235B) = Inr (Some demo_conn)"
proof -
  have so: "xso_so (demo_xinp 64 p) = p" for p by (simp add: demo_xinp_def)
  show "inet_entry fbsd_demo libc_demo IPPROTO_TCP SOCK_STREAM demo_xfiles 2
      (demo_xinp 64 0x1F6A) = Inr (Some demo_conn)"
    by (simp add: inet_entry_def inet_tuple_def so demo_lookup)
       (simp add: demo_xinp_def fbsd_demo_def libc_demo_def demo_conn_def INP_IPV4_def)
  show "inet_entry fbsd_demo libc_demo IPPROTO_TCP SOCK_STREAM demo_xfiles 2
      (demo_xinp 64 0x3000) = Inr None"
    by (simp add: inet_entry_def inet_tuple_def so demo_lookup)
       (simp add: demo_xinp_def fbsd_demo_def)
  show "inet_entry fbsd_demo libc_demo IPPROTO_TCP SOCK_STREAM demo_xfiles 2
      (demo_xinp 64 0x235B) = Inr (Some demo_conn)"
    by (simp add: inet_entry_def inet_tuple_def so demo_lookup)
       (simp add: demo_xinp_def fbsd_demo_def libc_demo_def demo_conn_def INP_IPV4_def)
qed

lemma demo_tcp_walk:
  "inet_walk fbsd_demo libc_demo IPPROTO_TCP SOCK_STREAM demo_xfiles 2 demo_tcp_buf 216 0 []
     = Some (Inr [demo_conn, demo_conn])"
proof -
  let ?walk = "inet_walk fbsd_demo libc_demo IPPROTO_TCP SOCK_STREAM demo_xfiles 2
    demo_tcp_buf 216"
  have b: "demo_tcp_buf 0 = demo_xinp 24 0"
    "demo_tcp_buf 24 = demo_xinp 64 0x1F6A"
    "demo_tcp_buf 88 = demo_xinp 64 0x3000"
    "demo_tcp_buf 152 = demo_xinp 64 0x235B"
    by (simp_all add: demo_tcp_buf_def)
  have l: "x_len (demo_xinp n p) = n" for n p by (simp add: demo_xinp_def)
  have 1: "?walk 0 [] = ?walk 24 [demo_conn]"
    using inet_walk_add [of 216 0 demo_tcp_buf fbsd_demo libc_demo IPPROTO_TCP SOCK_STREAM
        demo_xfiles 2 demo_conn "[]"]
    by (simp add: b l demo_entries)
  have 2: "?walk 24 [demo_conn] = ?walk 88 [demo_conn]"
    using inet_walk_skip [of 216 24 demo_tcp_buf fbsd_demo libc_demo IPPROTO_TCP SOCK_STREAM
        demo_xfiles 2 "[demo_conn]"]
    by (simp add: b l demo_entries)
  have 3: "?walk 88 [demo_conn] = ?walk 152 [demo_conn, demo_conn]"
    using inet_walk_add [of 216 88 demo_tcp_buf fbsd_demo libc_demo IPPROTO_TCP SOCK_STREAM
        demo_xfiles 2 demo_conn "[demo_conn]"]
    by (simp add: b l demo_entries)
  have 4: "?walk 152 [demo_conn, demo_conn] = Some (Inr [demo_conn, demo_conn])"
    by (rule inet_walk_stop) (simp add: b l)
  from 1 2 3 4 show ?thesis by simp
qed

lemma demo_gather_tcp:
  "psutil_gather_inet fbsd_demo libc_demo IPPROTO_TCP demo_xfiles 2 []
     = Some (Inr [demo_conn, demo_conn])"
proof -
  have f: "inet_fetch fbsd_demo (Some ''net.inet.tcp.pcblist'') 0 8192 5
      = Some (Inr (240, demo_tcp_buf))"
    by (rule inet_fetch_done)
       (simp_all add: fbsd_demo_def demo_tcp_buf_def demo_xinp_def)
  have s: "sizeof_xinpgen fbsd_demo = 24" by (simp add: fbsd_demo_def)
  show ?thesis
    by (simp add: psutil_gather_inet_def f s demo_tcp_walk)
qed

lemma demo_gather_udp:
  "psutil_gather_inet fbsd_demo libc_demo IPPROTO_UDP demo_xfiles 2 acc = Some (Inr acc)"
proof -
  have f: "inet_fetch fbsd_demo (Some ''net.inet.udp.pcblist'') 0 8192 5
      = Some (Inr (48, demo_empty_buf))"
    by (rule inet_fetch_done)
       (simp_all add: fbsd_demo_def demo_empty_buf_def demo_xinp_def)
  have s: "sizeof_xinpgen fbsd_demo = 24" by (simp add: fbsd_demo_def)
  have w: "inet_walk fbsd_demo libc_demo IPPROTO_UDP SOCK_DGRAM demo_xfiles 2 demo_empty_buf
      24 0 acc = Some (Inr acc)"
    by (rule inet_walk_stop) (simp add: demo_empty_buf_def demo_xinp_def)
  show ?thesis
    by (simp add: psutil_gather_inet_def f s w)
qed

lemma demo_gather_unix:
  "proto = SOCK_STREAM \<or> proto = SOCK_DGRAM \<Longrightarrow>
     psutil_gather_unix fbsd_demo proto demo_xfiles 2 acc = Some (Inr acc)"
proof -
  have f: "unix_fetch fbsd_demo v 0 8192 5 = Some (Inr (48, demo_unix_buf))" for v
    by (rule unix_fetch_done) (simp_all add: fbsd_demo_def demo_unix_buf_def)
  have s: "sizeof_xunpgen fbsd_demo = 24" by (simp add: fbsd_demo_def)
  have w: "unix_walk fbsd_demo proto demo_xfiles 2 demo_unix_buf 24 0 acc = Some (Inr acc)"
    by (rule unix_walk_stop) (simp add: demo_unix_buf_def)
  show ?thesis
    by (simp add: psutil_gather_unix_def Let_def f s w)
qed

lemma demo_net_connections:
  "freebsd_psutil_net_connections fbsd_demo libc_demo = Some (Inr [demo_conn, demo_conn])"
  by (simp add: freebsd_psutil_net_connections_def demo_populate demo_gather_tcp
        demo_gather_udp demo_gather_unix)

lemma no_owner_table_populate:
  "psutil_populate_xfiles fbsd_no_owner_table = Some (Inl (NullTypeErrno EPERM))"
proof -
  have "populate_loop fbsd_no_owner_table 0 128 = Some (Inl (NullTypeErrno EPERM))"
    by (rule populate_loop_error)
       (simp_all add: fbsd_no_owner_table_def fbsd_demo_def EPERM_def ENOMEM_def)
  then show ?thesis
    by (simp add: psutil_populate_xfiles_def fbsd_no_owner_table_def fbsd_demo_def)
qed

lemma nbsd_tables:
  "psutil_get_files (nbsd_machine so) [] = Inr [nbsd_file]"
  "psutil_get_info (nbsd_machine so) ALL_FAMILIES [] = Inr [nbsd_pcb so]"
  by (simp_all add: psutil_get_files_def psutil_get_info_def psutil_get_sockets_def
        slist_insert_all_def nbsd_machine_def)

lemma nbsd_match_run:
  "netbsd_psutil_net_connections nbsd_match libc_demo u (-1) = Inr [nbsd_conn]"
  by (simp add: netbsd_psutil_net_connections_def nbsd_match_def nbsd_tables)
     (simp add: nbsd_file_def nbsd_pcb_def netbsd_conn_def nbsd_conn_def nbsd_addr_def
        libc_demo_def Let_def)

lemma nbsd_collision_run:
  "netbsd_psutil_net_connections nbsd_collision libc_demo u (-1) = Inr []"
  by (simp add: netbsd_psutil_net_connections_def nbsd_collision_def nbsd_tables)
     (simp add: nbsd_file_def nbsd_pcb_def)

subsection \<open>The joins\<close>

lemma pid_from_sock_scan_find:
  "pid_from_sock_scan xfs h =
     (case find (\<lambda>xf. xf_data xf \<noteq> 0 \<and> sock_hash_of (xf_data xf) = h) xfs of
        None \<Rightarrow> -1
      | Some xf \<Rightarrow> xf_pid xf)"
  by (induction xfs) auto

lemma sock_hash_of_mod: "uint (sock_hash_of p) = uint p mod 1009"
proof -
  have m: "uint (p mod 1009) = uint p mod 1009"
    by (simp add: uint_mod)
  have "uint p mod 1009 < 1009" by simp
  then have lt: "uint p mod 1009 < 2 ^ 32" by simp
  have nn: "0 \<le> uint p mod 1009" by simp
  have "uint (ucast (p mod 1009) :: 32 word) = take_bit 32 (uint (p mod 1009))"
    by (simp add: unsigned_ucast_eq)
  also have "\<dots> = uint p mod 1009"
    using lt nn by (simp add: m take_bit_int_eq_self)
  finally show ?thesis
    by (simp add: sock_hash_of_def HASHSIZE_def)
qed

lemma inet_tuple_owner:
  "inet_tuple C type xs nx x st = Some c \<Longrightarrow>
     owner_pid c = psutil_get_pid_from_sock xs nx (sock_hash_of (xso_so x))
     \<and> 0 \<le> sint (owner_pid c)"
  by (auto simp: inet_tuple_def Let_def split: if_splits)

lemma inet_tuple_no_owner:
  "sint (psutil_get_pid_from_sock xs nx (sock_hash_of (xso_so x))) < 0 \<Longrightarrow>
     inet_tuple C type xs nx x st = None"
  by (simp add: inet_tuple_def)

lemma inet_entry_owner:
  "inet_entry K C proto type xs nx x = Inr (Some c) \<Longrightarrow>
     owner_pid c = psutil_get_pid_from_sock xs nx (sock_hash_of (xso_so x))
     \<and> 0 \<le> sint (owner_pid c)"
  by (auto simp: inet_entry_def dest: inet_tuple_owner split: if_splits)

lemma unix_entry_owner:
  "unix_entry K proto xs nx u = Inr (Some c) \<Longrightarrow>
     owner_pid c = psutil_get_pid_from_sock xs nx (sock_hash_of (xu_so u))
     \<and> 0 \<le> sint (owner_pid c)"
  by (auto simp: unix_entry_def Let_def split: if_splits)

lemma sock_hash_of_eq_iff:
  "sock_hash_of p = sock_hash_of q \<longleftrightarrow> uint p mod 1009 = uint q mod 1009"
proof
  assume "sock_hash_of p = sock_hash_of q"
  then have "uint (sock_hash_of p) = uint (sock_hash_of q)" by simp
  then show "uint p mod 1009 = uint q mod 1009" by (simp add: sock_hash_of_mod)
next
  assume "uint p mod 1009 = uint q mod 1009"
  then have "uint (sock_hash_of p) = uint (sock_hash_of q)" by (simp add: sock_hash_of_mod)
  then show "sock_hash_of p = sock_hash_of q" by (rule word_uint_eqI)
qed

lemma find_bucket:
  "xf \<in> set xfs \<Longrightarrow> P xf \<Longrightarrow> \<exists>xf' \<in> set xfs. P xf' \<and> find P xfs = Some xf'"
  by (induction xfs) auto

lemma netbsd_conn_fields:
  "netbsd_conn C u k kp objs = Inr (c, objs') \<Longrightarrow>
     fd c = sint (ki_fd k) \<and> family c = Some (ki_family kp) \<and> sock_type c = ki_type kp
     \<and> owner_pid c = ki_pid k"
  by (auto simp: netbsd_conn_def Let_def split: if_splits option.splits)

lemma netbsd_conn_known_family:
  "ki_family kp = AF_INET \<or> ki_family kp = AF_INET6_NETBSD \<or> ki_family kp = AF_UNIX \<Longrightarrow>
     \<exists>r. netbsd_conn C u k kp objs = Inr r"
  by (auto simp: netbsd_conn_def Let_def)

lemma join_sockets_pairs:
  "join_sockets C u k kps st = Inr st' \<Longrightarrow>
     map (\<lambda>c. (fd c, family c, sock_type c, owner_pid c)) (fst st') =
       map (\<lambda>c. (fd c, family c, sock_type c, owner_pid c)) (fst st)
       @ map (\<lambda>kp. (sint (ki_fd k), Some (ki_family kp), ki_type kp, ki_pid k))
           (filter (\<lambda>kp. ki_fdata k = ki_sockaddr kp) kps)"
proof (induction kps arbitrary: st)
  case Nil
  then show ?case by simp
next
  case (Cons kp kps)
  show ?case
  proof (cases "ki_fdata k \<noteq> ki_sockaddr kp")
    case True
    with Cons.prems have "join_sockets C u k kps st = Inr st'" by simp
    from Cons.IH [OF this] True show ?thesis by simp
  next
    case False
    with Cons.prems obtain c objs where c: "netbsd_conn C u k kp (snd st) = Inr (c, objs)"
      and run: "join_sockets C u k kps (fst st @ [c], objs) = Inr st'"
      by (auto split: sum.splits)
    from netbsd_conn_fields [OF c] Cons.IH [OF run] False show ?thesis by simp
  qed
qed

lemma join_files_pairs:
  "join_files C u pid ks kps st = Inr st' \<Longrightarrow>
     map (\<lambda>c. (fd c, family c, sock_type c, owner_pid c)) (fst st') =
       map (\<lambda>c. (fd c, family c, sock_type c, owner_pid c)) (fst st)
       @ concat (map (\<lambda>k. map (\<lambda>kp. (sint (ki_fd k), Some (ki_family kp), ki_type kp, ki_pid k))
                          (filter (\<lambda>kp. ki_fdata k = ki_sockaddr kp) kps))
                  (filter (\<lambda>k. pid = -1 \<or> ki_pid k = pid) ks))"
proof (induction ks arbitrary: st)
  case Nil
  then show ?case by simp
next
  case (Cons k ks)
  show ?case
  proof (cases "pid \<noteq> -1 \<and> ki_pid k \<noteq> pid")
    case True
    with Cons.prems have "join_files C u pid ks kps st = Inr st'" by simp
    from Cons.IH [OF this] True show ?thesis by auto
  next
    case False
    with Cons.prems obtain st1 where inner: "join_sockets C u k kps st = Inr st1"
      and run: "join_files C u pid ks kps st1 = Inr st'"
      by (auto split: sum.splits)
    from False have keep: "pid = -1 \<or> ki_pid k = pid" by auto
    from join_sockets_pairs [OF inner] Cons.IH [OF run] keep show ?thesis by simp
  qed
qed

lemma join_sockets_total:
  "\<forall>kp \<in> set kps. ki_family kp = AF_INET \<or> ki_family kp = AF_INET6_NETBSD
       \<or> ki_family kp = AF_UNIX \<Longrightarrow>
     \<exists>st'. join_sockets C u k kps st = Inr st'"
proof (induction kps arbitrary: st)
  case Nil
  then show ?case by simp
next
  case (Cons kp kps)
  from Cons.prems have fam: "ki_family kp = AF_INET \<or> ki_family kp = AF_INET6_NETBSD
      \<or> ki_family kp = AF_UNIX" by simp
  from Cons.prems have rest: "\<exists>st'. join_sockets C u k kps st1 = Inr st'" for st1
    using Cons.IH [of st1] by simp
  from netbsd_conn_known_family [OF fam, of C u k "snd st"]
  obtain c objs where "netbsd_conn C u k kp (snd st) = Inr (c, objs)" by auto
  with rest [of st] rest [of "(fst st @ [c], objs)"] show ?case by simp
qed

lemma join_files_total:
  "\<forall>kp \<in> set kps. ki_family kp = AF_INET \<or> ki_family kp = AF_INET6_NETBSD
       \<or> ki_family kp = AF_UNIX \<Longrightarrow>
     \<exists>st'. join_files C u pid ks kps st = Inr st'"
proof (induction ks arbitrary: st)
  case Nil
  then show ?case by simp
next
  case (Cons k ks)
  from join_sockets_total [OF Cons.prems, of C u k st]
  obtain st1 where "join_sockets C u k kps st = Inr st1" by auto
  with Cons.IH [OF Cons.prems, of st] Cons.IH [OF Cons.prems, of st1] show ?case by simp
qed

section \<open>The owner join\<close>

text \<open>
  C3, as the code has it. On FreeBSD the pid attached to a socket control block is
  \<^verbatim>\<open>psutil_get_pid_from_sock\<close> of the hash of its socket pointer: the hash is the
  pointer modulo 1009, and the lookup gives the pid of the first entry of the open-file
  table whose kernel object pointer is non-null and has that hash, or -1 when there is
  none. So two sockets whose pointers are equal modulo 1009 get the same answer, and a
  socket whose pointer is equal modulo 1009 to the non-null kernel object of some entry
  gets the pid of an entry of that bucket, whether or not the entry is its own.

  On NetBSD there is no hash. When the listing returns, its tuples are, in order,
  those of the pairs of an open-file entry (of the process asked for) and a control
  block whose \<^verbatim>\<open>ki_sockaddr\<close> equals the entry's \<^verbatim>\<open>ki_fdata\<close>, each with the
  descriptor and pid of the entry and the family and type of the block. So a control
  block that no entry points to is not listed, whatever its hash. The listing returns
  when the two tables were fetched and every block has one of the three families.
\<close>

theorem owner_join_hash_on_freebsd_pointer_on_netbsd:
  "psutil_get_pid_from_sock xs nx h =
      (case find (\<lambda>xf. xf_data xf \<noteq> 0 \<and> sock_hash_of (xf_data xf) = h) (xfiles_table xs nx) of
         None \<Rightarrow> -1
       | Some xf \<Rightarrow> xf_pid xf)
   \<and> uint (sock_hash_of p) = uint p mod 1009
   \<and> (inet_entry K C proto type xs nx x = Inr (Some c) \<longrightarrow>
        owner_pid c = psutil_get_pid_from_sock xs nx (sock_hash_of (xso_so x)))
   \<and> (unix_entry K uproto xs nx u = Inr (Some c) \<longrightarrow>
        owner_pid c = psutil_get_pid_from_sock xs nx (sock_hash_of (xu_so u)))
   \<and> (uint p mod 1009 = uint q mod 1009 \<longrightarrow>
        psutil_get_pid_from_sock xs nx (sock_hash_of p)
          = psutil_get_pid_from_sock xs nx (sock_hash_of q))
   \<and> (xf \<in> set (xfiles_table xs nx) \<and> xf_data xf \<noteq> 0
        \<and> uint (xf_data xf) mod 1009 = uint q mod 1009 \<longrightarrow>
        (\<exists>xf' \<in> set (xfiles_table xs nx). xf_data xf' \<noteq> 0
           \<and> uint (xf_data xf') mod 1009 = uint q mod 1009
           \<and> psutil_get_pid_from_sock xs nx (sock_hash_of q) = xf_pid xf'))
   \<and> ((\<forall>xf \<in> set (xfiles_table xs nx).
          xf_data xf = 0 \<or> uint (xf_data xf) mod 1009 \<noteq> uint q mod 1009) \<longrightarrow>
        psutil_get_pid_from_sock xs nx (sock_hash_of q) = -1)
   \<and> (psutil_get_files N [] = Inr kihead \<and> psutil_get_info N ALL_FAMILIES [] = Inr kpcbhead
        \<and> netbsd_psutil_net_connections N C unassigned pid = Inr r \<longrightarrow>
        map (\<lambda>c. (fd c, family c, sock_type c, owner_pid c)) r =
          concat (map (\<lambda>k. map (\<lambda>kp. (sint (ki_fd k), Some (ki_family kp), ki_type kp, ki_pid k))
                             (filter (\<lambda>kp. ki_fdata k = ki_sockaddr kp) kpcbhead))
                     (filter (\<lambda>k. pid = -1 \<or> ki_pid k = pid) kihead)))
   \<and> (psutil_get_files N [] = Inr kihead \<and> psutil_get_info N ALL_FAMILIES [] = Inr kpcbhead
        \<and> netbsd_psutil_net_connections N C unassigned pid = Inr r
        \<and> (\<forall>k \<in> set kihead. \<forall>kp \<in> set kpcbhead. ki_fdata k \<noteq> ki_sockaddr kp) \<longrightarrow>
        r = [])
   \<and> (psutil_get_files N [] = Inr kihead \<and> psutil_get_info N ALL_FAMILIES [] = Inr kpcbhead
        \<and> (\<forall>kp \<in> set kpcbhead. ki_family kp = AF_INET \<or> ki_family kp = AF_INET6_NETBSD
              \<or> ki_family kp = AF_UNIX) \<longrightarrow>
        (\<exists>r. netbsd_psutil_net_connections N C unassigned pid = Inr r))"
proof -
  let ?bucket = "\<lambda>h xf. xf_data xf \<noteq> 0 \<and> sock_hash_of (xf_data xf) = h"
  have lookup: "psutil_get_pid_from_sock xs nx h =
      (case find (?bucket h) (xfiles_table xs nx) of None \<Rightarrow> -1 | Some xf \<Rightarrow> xf_pid xf)" for h
    by (simp add: psutil_get_pid_from_sock_def pid_from_sock_scan_find)
  have inet: "inet_entry K C proto type xs nx x = Inr (Some c) \<longrightarrow>
      owner_pid c = psutil_get_pid_from_sock xs nx (sock_hash_of (xso_so x))"
    using inet_entry_owner by blast
  have unix: "unix_entry K uproto xs nx u = Inr (Some c) \<longrightarrow>
      owner_pid c = psutil_get_pid_from_sock xs nx (sock_hash_of (xu_so u))"
    using unix_entry_owner by blast
  have same: "uint p mod 1009 = uint q mod 1009 \<longrightarrow>
      psutil_get_pid_from_sock xs nx (sock_hash_of p)
        = psutil_get_pid_from_sock xs nx (sock_hash_of q)"
    by (simp add: sock_hash_of_eq_iff [symmetric])
  have bucket: "\<exists>xf' \<in> set (xfiles_table xs nx). xf_data xf' \<noteq> 0
      \<and> uint (xf_data xf') mod 1009 = uint q mod 1009
      \<and> psutil_get_pid_from_sock xs nx (sock_hash_of q) = xf_pid xf'"
    if m: "xf \<in> set (xfiles_table xs nx)" and nz: "xf_data xf \<noteq> 0"
      and h: "uint (xf_data xf) mod 1009 = uint q mod 1009"
  proof -
    from nz h have "?bucket (sock_hash_of q) xf" by (simp add: sock_hash_of_eq_iff)
    from find_bucket [where P = "?bucket (sock_hash_of q)", OF m this]
    obtain xf' where m': "xf' \<in> set (xfiles_table xs nx)"
      and b': "?bucket (sock_hash_of q) xf'"
      and f: "find (?bucket (sock_hash_of q)) (xfiles_table xs nx) = Some xf'"
      by blast
    from b' have "xf_data xf' \<noteq> 0" "uint (xf_data xf') mod 1009 = uint q mod 1009"
      by (simp_all add: sock_hash_of_eq_iff)
    moreover from f have "psutil_get_pid_from_sock xs nx (sock_hash_of q) = xf_pid xf'"
      by (simp add: lookup)
    ultimately show ?thesis using m' by blast
  qed
  have none: "psutil_get_pid_from_sock xs nx (sock_hash_of q) = -1"
    if "\<forall>xf \<in> set (xfiles_table xs nx).
          xf_data xf = 0 \<or> uint (xf_data xf) mod 1009 \<noteq> uint q mod 1009"
  proof -
    from that have "\<forall>xf \<in> set (xfiles_table xs nx). \<not> ?bucket (sock_hash_of q) xf"
      by (auto simp: sock_hash_of_eq_iff)
    then have "find (?bucket (sock_hash_of q)) (xfiles_table xs nx) = None"
      by (simp add: find_None_iff)
    then show ?thesis by (simp add: lookup)
  qed
  have pairs: "map (\<lambda>c. (fd c, family c, sock_type c, owner_pid c)) r =
      concat (map (\<lambda>k. map (\<lambda>kp. (sint (ki_fd k), Some (ki_family kp), ki_type kp, ki_pid k))
                         (filter (\<lambda>kp. ki_fdata k = ki_sockaddr kp) kpcbhead))
                 (filter (\<lambda>k. pid = -1 \<or> ki_pid k = pid) kihead))"
    if f: "psutil_get_files N [] = Inr kihead"
      and i: "psutil_get_info N ALL_FAMILIES [] = Inr kpcbhead"
      and run: "netbsd_psutil_net_connections N C unassigned pid = Inr r"
  proof -
    from f i run obtain objs where
      "join_files C unassigned pid kihead kpcbhead ([], \<lparr>py_laddr = None, py_raddr = None\<rparr>)
         = Inr (r, objs)"
      by (auto simp: netbsd_psutil_net_connections_def split: sum.splits)
    from join_files_pairs [OF this] show ?thesis by simp
  qed
  have empty: "r = []"
    if f: "psutil_get_files N [] = Inr kihead"
      and i: "psutil_get_info N ALL_FAMILIES [] = Inr kpcbhead"
      and run: "netbsd_psutil_net_connections N C unassigned pid = Inr r"
      and no: "\<forall>k \<in> set kihead. \<forall>kp \<in> set kpcbhead. ki_fdata k \<noteq> ki_sockaddr kp"
  proof -
    from no have "filter (\<lambda>kp. ki_fdata k = ki_sockaddr kp) kpcbhead = []"
      if "k \<in> set kihead" for k
      using that by (simp add: filter_empty_conv)
    then have "concat (map (\<lambda>k. map (\<lambda>kp. (sint (ki_fd k), Some (ki_family kp), ki_type kp, ki_pid k))
                         (filter (\<lambda>kp. ki_fdata k = ki_sockaddr kp) kpcbhead))
                 (filter (\<lambda>k. pid = -1 \<or> ki_pid k = pid) kihead)) = []"
      by simp
    with pairs [OF f i run] show ?thesis by simp
  qed
  have total: "\<exists>r. netbsd_psutil_net_connections N C unassigned pid = Inr r"
    if f: "psutil_get_files N [] = Inr kihead"
      and i: "psutil_get_info N ALL_FAMILIES [] = Inr kpcbhead"
      and fam: "\<forall>kp \<in> set kpcbhead. ki_family kp = AF_INET \<or> ki_family kp = AF_INET6_NETBSD
              \<or> ki_family kp = AF_UNIX"
  proof -
    from join_files_total [OF fam, of C unassigned pid kihead
        "([], \<lparr>py_laddr = None, py_raddr = None\<rparr>)"]
    obtain st' where "join_files C unassigned pid kihead kpcbhead
        ([], \<lparr>py_laddr = None, py_raddr = None\<rparr>) = Inr st'" by auto
    with f i show ?thesis
      by (cases st') (simp add: netbsd_psutil_net_connections_def)
  qed
  from lookup [of h] sock_hash_of_mod [of p] inet unix same bucket none pairs empty total
  show ?thesis by blast
qed

theorem owner_join_hash_on_freebsd_pointer_on_netbsd_witness:
  "inet_entry fbsd_demo libc_demo IPPROTO_TCP SOCK_STREAM demo_xfiles 2 (demo_xinp 64 0x1F6A)
     = Inr (Some demo_conn)
   \<and> owner_pid demo_conn
       = psutil_get_pid_from_sock demo_xfiles 2 (sock_hash_of (xso_so (demo_xinp 64 0x1F6A)))
   \<and> uint (0x1F6A :: 64 word) mod 1009 = uint (0x235B :: 64 word) mod 1009
   \<and> psutil_get_pid_from_sock demo_xfiles 2 (sock_hash_of 0x1F6A)
       = psutil_get_pid_from_sock demo_xfiles 2 (sock_hash_of 0x235B)
   \<and> netbsd_psutil_net_connections nbsd_match libc_demo 0 (-1) = Inr [nbsd_conn]
   \<and> map (\<lambda>c. (fd c, family c, sock_type c, owner_pid c)) [nbsd_conn]
       = [(3, Some AF_INET, SOCK_STREAM, 77)]
   \<and> (\<exists>r. netbsd_psutil_net_connections nbsd_match libc_demo 0 (-1) = Inr r)"
proof -
  note t = owner_join_hash_on_freebsd_pointer_on_netbsd
    [where K = fbsd_demo and C = libc_demo and proto = IPPROTO_TCP and type = SOCK_STREAM
       and xs = demo_xfiles and nx = 2 and x = "demo_xinp 64 0x1F6A" and c = demo_conn
       and p = "0x1F6A" and q = "0x235B" and N = nbsd_match and kihead = "[nbsd_file]"
       and kpcbhead = "[nbsd_pcb 0x1F6A]" and pid = "-1" and r = "[nbsd_conn]"
       and unassigned = 0]
  have same: "uint (0x1F6A :: 64 word) mod 1009 = uint (0x235B :: 64 word) mod 1009"
    by simp
  have tabs: "psutil_get_files nbsd_match [] = Inr [nbsd_file]"
    "psutil_get_info nbsd_match ALL_FAMILIES [] = Inr [nbsd_pcb 0x1F6A]"
    by (simp_all add: nbsd_match_def nbsd_tables)
  have fam: "\<forall>kp \<in> set [nbsd_pcb 0x1F6A]. ki_family kp = AF_INET
      \<or> ki_family kp = AF_INET6_NETBSD \<or> ki_family kp = AF_UNIX"
    by (simp add: nbsd_pcb_def)
  from t demo_entries(1) have 1: "owner_pid demo_conn
      = psutil_get_pid_from_sock demo_xfiles 2 (sock_hash_of (xso_so (demo_xinp 64 0x1F6A)))"
    by blast
  from t same have 2: "psutil_get_pid_from_sock demo_xfiles 2 (sock_hash_of 0x1F6A)
      = psutil_get_pid_from_sock demo_xfiles 2 (sock_hash_of 0x235B)"
    by blast
  from t tabs nbsd_match_run [of 0]
  have "map (\<lambda>c. (fd c, family c, sock_type c, owner_pid c)) [nbsd_conn] =
      concat (map (\<lambda>k. map (\<lambda>kp. (sint (ki_fd k), Some (ki_family kp), ki_type kp, ki_pid k))
                         (filter (\<lambda>kp. ki_fdata k = ki_sockaddr kp) [nbsd_pcb 0x1F6A]))
                 (filter (\<lambda>k. (-1 :: 32 word) = -1 \<or> ki_pid k = -1) [nbsd_file]))"
    by blast
  then have 3: "map (\<lambda>c. (fd c, family c, sock_type c, owner_pid c)) [nbsd_conn]
      = [(3, Some AF_INET, SOCK_STREAM, 77)]"
    by (simp add: nbsd_file_def nbsd_pcb_def)
  from t tabs fam have 4: "\<exists>r. netbsd_psutil_net_connections nbsd_match libc_demo 0 (-1) = Inr r"
    by blast
  from demo_entries(1) 1 same 2 nbsd_match_run [of 0] 3 4 show ?thesis by blast
qed

text \<open>
  The claim C3 as stated fails on NetBSD. The open file of pid 77 has the kernel object
  \<open>0x1F6A\<close> and the socket is the object \<open>0x235B\<close>; both have the same hash, and the
  FreeBSD lookup answers 77 for it. The NetBSD listing attaches no pid: it does not
  list the socket.
\<close>

theorem netbsd_join_ignores_hash_collision:
  "sock_hash_of (ki_fdata nbsd_file) = sock_hash_of (ki_sockaddr (nbsd_pcb 0x235B))
   \<and> psutil_get_files nbsd_collision [] = Inr [nbsd_file]
   \<and> psutil_get_info nbsd_collision ALL_FAMILIES [] = Inr [nbsd_pcb 0x235B]
   \<and> netbsd_psutil_net_connections nbsd_collision libc_demo 0 (-1) = Inr []"
  by (simp add: nbsd_collision_run)
     (simp add: nbsd_collision_def nbsd_tables nbsd_file_def nbsd_pcb_def sock_hash_of_def
        HASHSIZE_def)

section \<open>Degradation of the owner join\<close>

text \<open>
  C1, as the code has it. The FreeBSD listing does not degrade to an unknown owner.
  When \<^verbatim>\<open>psutil_populate_xfiles\<close> fails, \<^verbatim>\<open>psutil_net_connections\<close> fails with the same
  exception. When the listing returns, every tuple in it has a non-negative owner pid:
  a control block whose owner lookup is negative gives no tuple (for a UNIX socket,
  once its size check passed).
\<close>

theorem freebsd_connections_do_not_degrade:
  "(psutil_populate_xfiles K = Some (Inl e) \<longrightarrow>
      freebsd_psutil_net_connections K C = Some (Inl e))
   \<and> (freebsd_psutil_net_connections K C = Some (Inr conns) \<longrightarrow>
        (\<forall>c \<in> set conns. 0 \<le> sint (owner_pid c)))
   \<and> (sint (psutil_get_pid_from_sock xs nx (sock_hash_of (xso_so x))) < 0 \<longrightarrow>
        inet_tuple C type xs nx x st = None)
   \<and> (sint (psutil_get_pid_from_sock xs nx (sock_hash_of (xu_so u))) < 0
        \<and> xu_len u = sizeof_xunpcb K \<longrightarrow>
        unix_entry K proto xs nx u = Inr None)"
proof -
  have fail: "psutil_populate_xfiles K = Some (Inl e) \<longrightarrow>
      freebsd_psutil_net_connections K C = Some (Inl e)"
    by (simp add: freebsd_psutil_net_connections_def)
  have owned: "\<forall>c \<in> set conns. 0 \<le> sint (owner_pid c)"
    if run: "freebsd_psutil_net_connections K C = Some (Inr conns)"
  proof -
    let ?P = "\<lambda>c. 0 \<le> sint (owner_pid c)"
    from run obtain xs' nx' l1 l2 l3 where
      g1: "psutil_gather_inet K C IPPROTO_TCP xs' nx' [] = Some (Inr l1)"
      and g2: "psutil_gather_inet K C IPPROTO_UDP xs' nx' l1 = Some (Inr l2)"
      and g3: "psutil_gather_unix K SOCK_STREAM xs' nx' l2 = Some (Inr l3)"
      and g4: "psutil_gather_unix K SOCK_DGRAM xs' nx' l3 = Some (Inr conns)"
      unfolding freebsd_psutil_net_connections_def
      by (auto dest!: and_then_Inr)
    have i: "?P c" if "inet_entry K C proto type xs' nx' x = Inr (Some c)" for proto type x c
      by (rule conjunct2 [OF inet_entry_owner [OF that]])
    have u: "?P c" if "unix_entry K proto xs' nx' x = Inr (Some c)" for proto x c
      by (rule conjunct2 [OF unix_entry_owner [OF that]])
    have p0: "\<forall>c \<in> set []. ?P c" by simp
    have p1: "\<forall>c \<in> set l1. ?P c"
      by (rule gather_inet_adds [OF g1 p0]) (rule i)
    have p2: "\<forall>c \<in> set l2. ?P c"
      by (rule gather_inet_adds [OF g2 p1]) (rule i)
    have p3: "\<forall>c \<in> set l3. ?P c"
      by (rule gather_unix_adds [OF g3 p2]) (rule u)
    show ?thesis
      by (rule gather_unix_adds [OF g4 p3]) (rule u)
  qed
  have skip: "sint (psutil_get_pid_from_sock xs nx (sock_hash_of (xso_so x))) < 0 \<longrightarrow>
      inet_tuple C type xs nx x st = None"
    using inet_tuple_no_owner by blast
  have uskip: "sint (psutil_get_pid_from_sock xs nx (sock_hash_of (xu_so u))) < 0
      \<and> xu_len u = sizeof_xunpcb K \<longrightarrow> unix_entry K proto xs nx u = Inr None"
    by (simp add: unix_entry_def)
  from fail owned skip uskip show ?thesis by blast
qed

theorem freebsd_connections_do_not_degrade_witness:
  "freebsd_psutil_net_connections fbsd_no_owner_table libc_demo
     = Some (Inl (NullTypeErrno EPERM))
   \<and> freebsd_psutil_net_connections fbsd_demo libc_demo = Some (Inr [demo_conn, demo_conn])
   \<and> 0 \<le> sint (owner_pid demo_conn)
   \<and> inet_tuple libc_demo SOCK_STREAM demo_xfiles 2 (demo_xinp 64 0x3000) 1 = None"
proof -
  note a = freebsd_connections_do_not_degrade
    [where K = fbsd_no_owner_table and C = libc_demo and e = "NullTypeErrno EPERM"]
  note b = freebsd_connections_do_not_degrade
    [where K = fbsd_demo and C = libc_demo and conns = "[demo_conn, demo_conn]"
       and xs = demo_xfiles and nx = 2 and x = "demo_xinp 64 0x3000" and type = SOCK_STREAM
       and st = 1]
  have neg: "sint (psutil_get_pid_from_sock demo_xfiles 2
      (sock_hash_of (xso_so (demo_xinp 64 0x3000)))) < 0"
    using demo_lookup(3) by (simp add: demo_xinp_def)
  from a no_owner_table_populate have 1:
    "freebsd_psutil_net_connections fbsd_no_owner_table libc_demo
       = Some (Inl (NullTypeErrno EPERM))"
    by blast
  from b demo_net_connections have "\<forall>c \<in> set [demo_conn, demo_conn]. 0 \<le> sint (owner_pid c)"
    by blast
  then have 2: "0 \<le> sint (owner_pid demo_conn)" by simp
  from b neg have 3:
    "inet_tuple libc_demo SOCK_STREAM demo_xfiles 2 (demo_xinp 64 0x3000) 1 = None"
    by blast
  from 1 demo_net_connections 2 3 show ?thesis by blast
qed

text \<open>
  The claim C1 as stated fails on both counts. When the \<^verbatim>\<open>kern.file\<close> fetch fails the
  listing is an error, not the records with an unknown owner; and on the machine
  \<open>fbsd_demo\<close> the socket at \<open>0x3000\<close>, which has no owner, is missing from the listing
  of the three TCP sockets.
\<close>

theorem freebsd_owner_table_failure_aborts_listing:
  "psutil_populate_xfiles fbsd_no_owner_table = Some (Inl (NullTypeErrno EPERM))
   \<and> freebsd_psutil_net_connections fbsd_no_owner_table libc_demo
       = Some (Inl (NullTypeErrno EPERM))
   \<and> psutil_get_pid_from_sock demo_xfiles 2 (sock_hash_of 0x3000) = -1
   \<and> psutil_gather_inet fbsd_demo libc_demo IPPROTO_TCP demo_xfiles 2 []
       = Some (Inr [demo_conn, demo_conn])"
  by (simp add: no_owner_table_populate freebsd_psutil_net_connections_def demo_lookup
        demo_gather_tcp)

section \<open>Struct size checks\<close>




section \<open>The names of open files\<close>

lemma wait_distinct [simp]:
  "WAIT_TIMEOUT \<noteq> WAIT_OBJECT_0" "WAIT_OBJECT_0 \<noteq> WAIT_TIMEOUT"
  by (simp_all add: WAIT_TIMEOUT_def WAIT_OBJECT_0_def)

lemma psutil_NtQueryObject_thread:
  assumes "g_hThread s = Some th"
  shows "psutil_NtQueryObject os s =
     (WaitForSingleObject_hEvtFinish os (queries s),
      (case worker os (queries s) of
         None \<Rightarrow> s
       | Some a \<Rightarrow> s\<lparr>g_status := stored_status a, g_dwLength := stored_length a,
                      g_pNameBuffer := map_option (\<lambda>b. stored_name a) (g_pNameBuffer s)\<rparr>)
      \<lparr>calls := calls s @ [CallSetEvent_hEvtStart, CallWaitForSingleObject_hEvtFinish NTQO_TIMEOUT]
          @ (if WaitForSingleObject_hEvtFinish os (queries s) = WAIT_TIMEOUT
             then [CallSuspendThread th, CallTerminateThread th 1,
                   CallWaitForSingleObject_hThread th INFINITE, CallCloseHandle_hThread th]
             else []),
       queries := Suc (queries s),
       g_hThread := (if WaitForSingleObject_hEvtFinish os (queries s) = WAIT_TIMEOUT
                     then None else Some th)\<rparr>)"
  using assms
  by (simp add: psutil_NtQueryObject_def Let_def split: option.splits)









lemma loop_cleanup_simps [simp]:
  "g_hFile (loop_cleanup s) = None" "g_pNameBuffer (loop_cleanup s) = None"
  "g_dwLength (loop_cleanup s) = 0" "g_dwSize (loop_cleanup s) = 0"
  "queries (loop_cleanup s) = queries s" "g_hThread (loop_cleanup s) = g_hThread s"
  "g_status (loop_cleanup s) = g_status s"
  "calls (loop_cleanup s)
     = calls s @ (case g_hFile s of None \<Rightarrow> [] | Some h \<Rightarrow> [CallCloseHandle_hFile h])"
  by (simp_all add: loop_cleanup_def)



















end
